theory Spec2Isabelle
  imports Complex_Main
begin

section \<open>AML assistant: data model\<close>

text \<open>
  The Python sources pass dictionaries around. A dictionary whose keys the code reads with
  \<^verbatim>\<open>.get(key, default)\<close> is a record of optional fields here: \<open>None\<close> is "key absent",
  and every default of the source is written where the source writes it. Python floats
  are modelled by exact reals; the unbounded Python \<^verbatim>\<open>int\<close> is \<open>int\<close> or, for the
  alert counter that only ever counts up from zero, \<open>nat\<close>. Calls to
  \<^verbatim>\<open>datetime.now()\<close> take the clock reading as an argument \<open>now\<close>.
\<close>

text \<open>
  Exceptions. \<open>BackendError\<close> carries the message of an exception raised by a scoring
  backend or by a bank system; the others are the built-in Python errors the modelled
  statements can raise. \<open>AllBackendsFailed\<close> is the error named by the specification's
  taxonomy; no statement of the sources raises it.
\<close>

datatype error =
    BackendError string
  | TypeError
  | KeyError
  | IndexError
  | AttributeError
  | AllBackendsFailed

record transaction =
  transaction_id :: "string option"
  customer_id :: "string option"
  details :: "(string \<times> string) list"

record customer_profile =
  cp_customer_id :: "string option"
  cp_name :: "string option"
  risk_tier :: "string option"
  business_type :: "string option"
  kyc_status :: "string option"
  monthly_volume :: "real option"
  account_age_days :: "int option"
  pep_status :: "bool option"
  sanctions_match :: "bool option"
  account_balance :: "real option"

text \<open>The empty dictionary \<^verbatim>\<open>{}\<close> as a customer profile.\<close>

definition empty_profile :: customer_profile where
  "empty_profile = \<lparr>cp_customer_id = None, cp_name = None, risk_tier = None,
     business_type = None, kyc_status = None, monthly_volume = None,
     account_age_days = None, pep_status = None, sanctions_match = None,
     account_balance = None\<rparr>"

text \<open>The dictionary a scoring backend returns, and the engine then annotates.\<close>

record analysis =
  risk_level :: "string option"
  risk_score :: "real option"
  risk_factors :: "string list option"
  recommended_actions :: "string list option"
  detected_patterns :: "string list option"
  confidence :: "real option"
  analysis_method :: "string option"
  ai_provider :: "string option"
  fallback_used :: "bool option"

text \<open>
  What awaiting \<^verbatim>\<open>provider.analyze(transaction_data, customer_data)\<close> does: raise, return
  \<^verbatim>\<open>None\<close> (a body that is only \<^verbatim>\<open>pass\<close>), or return a dictionary. The customer data is
  \<open>None\<close> when the bank system returned \<^verbatim>\<open>None\<close> for the profile.
\<close>

datatype provider_outcome = Raises string | ReturnsNone | Returns analysis

type_synonym provider = "transaction \<Rightarrow> customer_profile option \<Rightarrow> provider_outcome"

record learning_entry =
  le_timestamp :: nat
  le_transaction :: transaction
  le_customer :: "customer_profile option"
  le_result :: analysis
  le_feedback :: "analysis option"

text \<open>
  The part of \<^verbatim>\<open>ConfigManager.config\<close> the modelled code reads, flattened:
  \<^verbatim>\<open>config['ai']['provider']\<close>, \<^verbatim>\<open>config['ai']['api_key']\<close>,
  \<^verbatim>\<open>config['risk'][...]\<close> and \<^verbatim>\<open>config['learning']['pattern_memory_size']\<close>.
\<close>

record config =
  cfg_provider :: string
  cfg_api_key :: "string option"
  ctr_threshold :: int
  suspicious_threshold :: int
  high_risk_score :: int
  pattern_memory_size :: int

definition default_config :: config where
  "default_config = \<lparr>cfg_provider = ''auto'', cfg_api_key = None, ctr_threshold = 10000,
     suspicious_threshold = 8000, high_risk_score = 70, pattern_memory_size = 1000\<rparr>"

section \<open>The local composite backend\<close>

record rule_result =
  rr_factors :: "string list option"
  rr_actions :: "string list option"

record pattern_result =
  pr_patterns :: "string list"
  pr_factors :: "string list option"

record fused_result =
  fr_risk_level :: string
  fr_risk_score :: real
  fr_risk_factors :: "string list"
  fr_actions :: "string list"
  fr_confidence :: real

definition rule_engine_analyze :: "transaction \<Rightarrow> customer_profile option \<Rightarrow> rule_result" where
  "rule_engine_analyze transaction_data customer_data =
     \<lparr>rr_factors = Some [''rule_based_factor_1'', ''rule_based_factor_2''],
      rr_actions = Some [''action_1'', ''action_2'']\<rparr>"

definition detect_patterns :: "transaction \<Rightarrow> customer_profile option \<Rightarrow> pattern_result" where
  "detect_patterns transaction_data customer_data =
     \<lparr>pr_patterns = [''structuring'', ''unusual_behavior''],
      pr_factors = Some [''pattern_based_factor_1'']\<rparr>"

definition calculate_risk :: "transaction \<Rightarrow> customer_profile option \<Rightarrow> real" where
  "calculate_risk transaction_data customer_data = 65"

text \<open>\<^verbatim>\<open>d.get(key, [])\<close> on an optional list.\<close>

definition get_list :: "'a list option \<Rightarrow> 'a list" where
  "get_list v = (case v of None \<Rightarrow> [] | Some xs \<Rightarrow> xs)"

definition fuse_results :: "rule_result \<Rightarrow> pattern_result \<Rightarrow> real \<Rightarrow> fused_result" where
  "fuse_results rule_res pattern_res score =
     \<lparr>fr_risk_level = ''medium'',
      fr_risk_score = score,
      fr_risk_factors = get_list (rr_factors rule_res) @ get_list (pr_factors pattern_res),
      fr_actions = get_list (rr_actions rule_res),
      fr_confidence = 0.7\<rparr>"

definition local_analyze :: provider where
  "local_analyze transaction_data customer_data =
     (let rule_based_result = rule_engine_analyze transaction_data customer_data;
          pattern_res = detect_patterns transaction_data customer_data;
          score = calculate_risk transaction_data customer_data;
          final_result = fuse_results rule_based_result pattern_res score
      in Returns
        \<lparr>risk_level = Some (fr_risk_level final_result),
         risk_score = Some (fr_risk_score final_result),
         risk_factors = Some (fr_risk_factors final_result),
         recommended_actions = Some (fr_actions final_result),
         detected_patterns = Some (pr_patterns pattern_res),
         confidence = Some (fr_confidence final_result),
         analysis_method = Some ''local_intelligence'',
         ai_provider = None,
         fallback_used = None\<rparr>)"

text \<open>\<^verbatim>\<open>HybridIntelligenceProvider.analyze\<close> has the body \<^verbatim>\<open>pass\<close>: it returns \<^verbatim>\<open>None\<close>.\<close>

definition hybrid_analyze :: provider where
  "hybrid_analyze transaction_data customer_data = ReturnsNone"

section \<open>The engine: providers, confidence, learning memory\<close>

text \<open>
  \<^verbatim>\<open>available_providers\<close> is a Python dictionary that the fallback loop iterates in
  insertion order: an association list. \<^verbatim>\<open>performance_metrics\<close> maps a provider name to
  a dictionary of metrics.
\<close>

record engine =
  provider :: string
  available_providers :: "(string \<times> provider) list"
  learning_memory :: "learning_entry list"
  performance_metrics :: "string \<rightharpoonup> (string \<rightharpoonup> real)"

definition check_openai_availability :: "string option \<Rightarrow> bool" where
  "check_openai_availability api_key =
     (case api_key of None \<Rightarrow> False | Some k \<Rightarrow> k \<noteq> [] \<and> take 3 k = ''sk-'')"

text \<open>
  The module \<^verbatim>\<open>providers/openai_provider.py\<close> is not part of the sources, so the OpenAI
  backend is a parameter: \<open>None\<close> when the import fails, in which case the dictionary
  holds \<^verbatim>\<open>None\<close> and calling \<^verbatim>\<open>.analyze\<close> on it raises.
\<close>

definition create_openai_provider :: "provider option \<Rightarrow> provider" where
  "create_openai_provider openai =
     (case openai of
        None \<Rightarrow> (\<lambda>transaction_data customer_data. Raises ''AttributeError'')
      | Some p \<Rightarrow> p)"

definition initialize_providers :: "string option \<Rightarrow> provider option \<Rightarrow> (string \<times> provider) list" where
  "initialize_providers api_key openai =
     (let providers0 = (if check_openai_availability api_key
                        then [(''openai'', create_openai_provider openai)] else []);
          providers1 = providers0 @ [(''local'', local_analyze)]
      in if length providers1 > 1 then providers1 @ [(''hybrid'', hybrid_analyze)]
         else providers1)"

definition calculate_confidence :: "engine \<Rightarrow> analysis \<Rightarrow> real" where
  "calculate_confidence eng result =
     (let base_confidence = (case confidence result of None \<Rightarrow> 0.5 | Some c \<Rightarrow> c);
          prov = (case ai_provider result of None \<Rightarrow> ''local'' | Some p \<Rightarrow> p);
          metrics = (case performance_metrics eng prov of None \<Rightarrow> Map.empty | Some m \<Rightarrow> m);
          provider_performance = (case metrics ''accuracy'' of None \<Rightarrow> 0.8 | Some a \<Rightarrow> a);
          n_risk_factors = length (get_list (risk_factors result));
          complexity_factor = min (real n_risk_factors / 10) 1.0;
          final_confidence = base_confidence * 0.6 + provider_performance * 0.3
                             + complexity_factor * 0.1
      in min final_confidence 1.0)"

text \<open>
  \<^verbatim>\<open>_store_analysis_result\<close> on the memory list. \<^verbatim>\<open>pop(0)\<close> on an empty list raises
  IndexError, before anything is appended.
\<close>

definition store_analysis_result ::
  "config \<Rightarrow> nat \<Rightarrow> learning_entry list \<Rightarrow> transaction \<Rightarrow> customer_profile option
     \<Rightarrow> analysis \<Rightarrow> error + learning_entry list" where
  "store_analysis_result cfg now memory transaction_data customer_data result =
     (let learning_entry = \<lparr>le_timestamp = now, le_transaction = transaction_data,
            le_customer = customer_data, le_result = result, le_feedback = None\<rparr>
      in if int (length memory) \<ge> pattern_memory_size cfg
         then (case memory of
                 [] \<Rightarrow> Inl IndexError
               | oldest # rest \<Rightarrow> Inr (rest @ [learning_entry]))
         else Inr (memory @ [learning_entry]))"

text \<open>
  The loop of \<^verbatim>\<open>learn_from_feedback\<close>: walk the memory from index 0 and stop at the first
  entry whose transaction id equals the given one. \<^verbatim>\<open>_update_performance_metrics\<close> has
  the body \<^verbatim>\<open>pass\<close>, so the rest of the engine is unchanged.
\<close>

fun attach_feedback :: "learning_entry list \<Rightarrow> string \<Rightarrow> analysis \<Rightarrow> learning_entry list" where
  "attach_feedback [] tid correct_assessment = []"
| "attach_feedback (entry # entries) tid correct_assessment =
     (if transaction_id (le_transaction entry) = Some tid
      then entry\<lparr>le_feedback := Some correct_assessment\<rparr> # entries
      else entry # attach_feedback entries tid correct_assessment)"

definition learn_from_feedback :: "engine \<Rightarrow> string \<Rightarrow> analysis \<Rightarrow> engine" where
  "learn_from_feedback eng tid correct_assessment =
     eng\<lparr>learning_memory := attach_feedback (learning_memory eng) tid correct_assessment\<rparr>"

section \<open>The engine: analysis with fallback\<close>

text \<open>
  The body shared by the two \<^verbatim>\<open>try\<close> blocks of \<^verbatim>\<open>analyze_transaction\<close>: await the
  provider, write \<^verbatim>\<open>ai_provider\<close> and the adjusted confidence into the returned
  dictionary (item assignment on \<^verbatim>\<open>None\<close> raises TypeError), set \<^verbatim>\<open>fallback_used\<close> in the
  fallback loop only, and store the result. Any exception leaves the block; the caller of
  this function is the \<^verbatim>\<open>except Exception\<close> clause.
\<close>

definition try_provider ::
  "config \<Rightarrow> nat \<Rightarrow> engine \<Rightarrow> bool \<Rightarrow> string \<Rightarrow> provider \<Rightarrow> transaction
     \<Rightarrow> customer_profile option \<Rightarrow> error + (analysis \<times> engine)" where
  "try_provider cfg now eng is_fallback provider_name prov transaction_data customer_data =
     (case prov transaction_data customer_data of
        Raises msg \<Rightarrow> Inl (BackendError msg)
      | ReturnsNone \<Rightarrow> Inl TypeError
      | Returns result0 \<Rightarrow>
          (let result1 = result0\<lparr>ai_provider := Some provider_name\<rparr>;
               result2 = result1\<lparr>confidence := Some (calculate_confidence eng result1)\<rparr>;
               result = (if is_fallback then result2\<lparr>fallback_used := Some True\<rparr>
                         else result2)
           in case store_analysis_result cfg now (learning_memory eng)
                     transaction_data customer_data result of
                Inl e \<Rightarrow> Inl e
              | Inr memory \<Rightarrow> Inr (result, eng\<lparr>learning_memory := memory\<rparr>)))"

text \<open>
  The fallback loop over \<^verbatim>\<open>available_providers.items()\<close>. It returns the first result
  together with the names of the providers whose \<^verbatim>\<open>analyze\<close> was awaited, in order;
  \<open>None\<close> when the loop runs to its end.
\<close>

fun fallback_sweep ::
  "config \<Rightarrow> nat \<Rightarrow> engine \<Rightarrow> string \<Rightarrow> transaction \<Rightarrow> customer_profile option
     \<Rightarrow> (string \<times> provider) list \<Rightarrow> (analysis \<times> engine) option \<times> string list" where
  "fallback_sweep cfg now eng primary_provider transaction_data customer_data [] = (None, [])"
| "fallback_sweep cfg now eng primary_provider transaction_data customer_data
     ((provider_name, prov) # rest) =
     (if provider_name \<noteq> primary_provider
      then (case try_provider cfg now eng True provider_name prov transaction_data
                   customer_data of
              Inr found \<Rightarrow> (Some found, [provider_name])
            | Inl e \<Rightarrow>
                (let (r, calls) = fallback_sweep cfg now eng primary_provider
                                    transaction_data customer_data rest
                 in (r, provider_name # calls)))
      else fallback_sweep cfg now eng primary_provider transaction_data customer_data rest)"

text \<open>
  The last statement: \<^verbatim>\<open>return await self.available_providers['local'].analyze(...)\<close>.
  The subscript raises KeyError when no provider is registered under that name; an
  exception of the provider propagates; its return value is returned as it is.
\<close>

definition ultimate_fallback ::
  "engine \<Rightarrow> transaction \<Rightarrow> customer_profile option \<Rightarrow> (error + analysis option) \<times> string list" where
  "ultimate_fallback eng transaction_data customer_data =
     (case map_of (available_providers eng) ''local'' of
        None \<Rightarrow> (Inl KeyError, [])
      | Some prov \<Rightarrow>
          (case prov transaction_data customer_data of
             Raises msg \<Rightarrow> (Inl (BackendError msg), [''local''])
           | ReturnsNone \<Rightarrow> (Inr None, [''local''])
           | Returns result \<Rightarrow> (Inr (Some result), [''local''])))"

text \<open>
  \<^verbatim>\<open>IntelligentAIEngine.analyze_transaction\<close>. The value is the returned dictionary (or
  \<^verbatim>\<open>None\<close>) or the exception, the engine afterwards, and the providers called, in order.
\<close>

definition after_primary ::
  "config \<Rightarrow> nat \<Rightarrow> engine \<Rightarrow> transaction \<Rightarrow> customer_profile option \<Rightarrow> string list
     \<Rightarrow> (error + analysis option) \<times> engine \<times> string list" where
  "after_primary cfg now eng transaction_data customer_data calls0 =
     (case fallback_sweep cfg now eng (provider eng) transaction_data customer_data
             (available_providers eng) of
        (Some (result, eng'), calls1) \<Rightarrow> (Inr (Some result), eng', calls0 @ calls1)
      | (None, calls1) \<Rightarrow>
          (let (r, calls2) = ultimate_fallback eng transaction_data customer_data
           in (r, eng, calls0 @ calls1 @ calls2)))"

definition engine_analyze_transaction ::
  "config \<Rightarrow> nat \<Rightarrow> engine \<Rightarrow> transaction \<Rightarrow> customer_profile option
     \<Rightarrow> (error + analysis option) \<times> engine \<times> string list" where
  "engine_analyze_transaction cfg now eng transaction_data customer_data =
     (let primary_provider = provider eng
      in case map_of (available_providers eng) primary_provider of
           Some prov \<Rightarrow>
             (case try_provider cfg now eng False primary_provider prov transaction_data
                     customer_data of
                Inr (result, eng') \<Rightarrow> (Inr (Some result), eng', [primary_provider])
              | Inl e \<Rightarrow>
                  after_primary cfg now eng transaction_data customer_data [primary_provider])
         | None \<Rightarrow> after_primary cfg now eng transaction_data customer_data [])"

section \<open>The bank system\<close>

record alert =
  alert_id :: string
  al_transaction_id :: "string option"
  al_risk_level :: string
  al_risk_score :: real
  al_detected_patterns :: "string list"
  al_reasoning :: "string list"
  al_timestamp :: nat

text \<open>
  \<^verbatim>\<open>BankSystemInterface\<close>: the four coroutines of an adapter, over the adapter's own
  state \<open>'b\<close>. A fetch raises or returns a value, which is \<^verbatim>\<open>None\<close> for the adapters
  whose methods are only \<^verbatim>\<open>pass\<close>. \<^verbatim>\<open>submit_alert\<close> raises or returns a value that the
  caller tests for truth (\<^verbatim>\<open>None\<close> counts as false), and may change the adapter's state
  either way.
\<close>

record 'b bank_system =
  bs_type_name :: string
  bs_is_simulation :: bool
  bs_get_customer_profile :: "'b \<Rightarrow> string \<Rightarrow> error + customer_profile option"
  bs_get_transaction_history :: "'b \<Rightarrow> string \<Rightarrow> nat \<Rightarrow> error + transaction list option"
  bs_submit_alert :: "'b \<Rightarrow> alert \<Rightarrow> (error + bool) \<times> 'b"

text \<open>\<^verbatim>\<open>SimulationSystem\<close>: the sample customers, and the alerts submitted so far.\<close>

definition CUST001 :: customer_profile where
  "CUST001 = \<lparr>cp_customer_id = Some ''CUST001'',
     cp_name = Some ''John's Fine Dining Restaurant'', risk_tier = Some ''medium_risk'',
     business_type = Some ''Restaurant & Hospitality'', kyc_status = Some ''verified'',
     monthly_volume = Some 75000, account_age_days = Some 420, pep_status = Some False,
     sanctions_match = Some False, account_balance = Some 150000\<rparr>"

definition CUST002 :: customer_profile where
  "CUST002 = \<lparr>cp_customer_id = Some ''CUST002'',
     cp_name = Some ''Tech Startup Inc.'', risk_tier = Some ''low_risk'',
     business_type = Some ''Technology Services'', kyc_status = Some ''verified'',
     monthly_volume = Some 50000, account_age_days = Some 180, pep_status = Some False,
     sanctions_match = Some False, account_balance = Some 75000\<rparr>"

definition CUST003 :: customer_profile where
  "CUST003 = \<lparr>cp_customer_id = Some ''CUST003'',
     cp_name = Some ''Global Trading LLC'', risk_tier = Some ''high_risk'',
     business_type = Some ''International Trade'',
     kyc_status = Some ''enhanced_due_diligence'',
     monthly_volume = Some 500000, account_age_days = Some 730, pep_status = Some True,
     sanctions_match = Some False, account_balance = Some 1000000\<rparr>"

definition sample_customers :: "(string \<times> customer_profile) list" where
  "sample_customers = [(''CUST001'', CUST001), (''CUST002'', CUST002), (''CUST003'', CUST003)]"

definition sample_transactions :: "transaction list" where
  "sample_transactions =
     [\<lparr>transaction_id = Some ''TX001'', customer_id = Some ''CUST001'',
        details = [(''amount'', ''9500.00''), (''type'', ''cash_deposit''),
          (''timestamp'', ''2024-01-15T10:30:00''), (''counterparty'', ''Business Account''),
          (''channel'', ''branch'')]\<rparr>,
      \<lparr>transaction_id = Some ''TX002'', customer_id = Some ''CUST001'',
        details = [(''amount'', ''12000.00''), (''type'', ''wire_transfer''),
          (''timestamp'', ''2024-01-14T14:20:00''), (''counterparty'', ''Supplier Corp''),
          (''channel'', ''online'')]\<rparr>]"

definition get_customer_profile :: "string \<Rightarrow> customer_profile" where
  "get_customer_profile cid =
     (case map_of sample_customers cid of None \<Rightarrow> empty_profile | Some p \<Rightarrow> p)"

definition get_transaction_history :: "string \<Rightarrow> nat \<Rightarrow> transaction list" where
  "get_transaction_history cid days =
     filter (\<lambda>tx. customer_id tx = Some cid) sample_transactions"

text \<open>
  The simulation appends the alert to its list (the two constant fields it adds,
  \<^verbatim>\<open>submitted_at\<close> and \<^verbatim>\<open>alert_status\<close>, are left out) and returns \<^verbatim>\<open>True\<close>.
\<close>

definition simulation_submit_alert :: "alert list \<Rightarrow> alert \<Rightarrow> (error + bool) \<times> alert list" where
  "simulation_submit_alert alerts alert_data = (Inr True, alerts @ [alert_data])"

definition SimulationSystem :: "alert list bank_system" where
  "SimulationSystem =
     \<lparr>bs_type_name = ''SimulationSystem'',
      bs_is_simulation = True,
      bs_get_customer_profile = (\<lambda>alerts cid. Inr (Some (get_customer_profile cid))),
      bs_get_transaction_history =
        (\<lambda>alerts cid days. Inr (Some (get_transaction_history cid days))),
      bs_submit_alert = simulation_submit_alert\<rparr>"

record bank_context =
  bc_customer_profile :: "customer_profile option"
  bc_recent_transactions :: "transaction list option"
  bc_system_type :: string
  bc_simulation_mode :: bool

text \<open>
  \<^verbatim>\<open>BankIntegrationManager.process_transaction\<close>: the subscript
  \<^verbatim>\<open>transaction_data['customer_id']\<close> raises KeyError when the key is absent.
\<close>

definition process_transaction ::
  "'b bank_system \<Rightarrow> 'b \<Rightarrow> transaction \<Rightarrow> error + bank_context" where
  "process_transaction sys bst transaction_data =
     (case customer_id transaction_data of
        None \<Rightarrow> Inl KeyError
      | Some cid \<Rightarrow>
          (case bs_get_customer_profile sys bst cid of
             Inl e \<Rightarrow> Inl e
           | Inr profile \<Rightarrow>
               (case bs_get_transaction_history sys bst cid 30 of
                  Inl e \<Rightarrow> Inl e
                | Inr history \<Rightarrow>
                    Inr \<lparr>bc_customer_profile = profile,
                         bc_recent_transactions = history,
                         bc_system_type = bs_type_name sys,
                         bc_simulation_mode = bs_is_simulation sys\<rparr>)))"

section \<open>The assistant facade\<close>

record risk_assessment =
  ra_risk_level :: string
  ra_risk_score :: real
  ra_primary_factors :: "string list"
  ra_confidence :: real
  ra_ai_provider :: string

record system_info =
  si_bank_system :: string
  si_simulation_mode :: bool
  si_analysis_method :: string

record analysis_context =
  customer_risk_tier :: string
  transaction_count :: nat
  customer_since_days :: int

record analysis_result =
  ar_transaction_id :: "string option"
  ar_timestamp :: nat
  ar_risk_assessment :: risk_assessment
  ar_detected_patterns :: "string list"
  ar_recommended_actions :: "string list"
  ar_system_info :: system_info
  ar_context :: analysis_context

text \<open>The members of \<^verbatim>\<open>RiskLevel\<close>, a string enumeration that compares equal to its values.\<close>

definition RiskLevel_LOW :: string where "RiskLevel_LOW = ''low''"
definition RiskLevel_MEDIUM :: string where "RiskLevel_MEDIUM = ''medium''"
definition RiskLevel_HIGH :: string where "RiskLevel_HIGH = ''high''"
definition RiskLevel_SEVERE :: string where "RiskLevel_SEVERE = ''severe''"

text \<open>
  \<^verbatim>\<open>_generate_comprehensive_result\<close>. Calling \<^verbatim>\<open>.get\<close> on \<^verbatim>\<open>None\<close> raises AttributeError
  (the AI analysis first, then the customer profile, in the order the dictionary display
  evaluates them) and \<^verbatim>\<open>len(None)\<close> raises TypeError.
\<close>

definition generate_comprehensive_result ::
  "nat \<Rightarrow> transaction \<Rightarrow> bank_context \<Rightarrow> analysis option \<Rightarrow> error + analysis_result" where
  "generate_comprehensive_result now transaction_data bank_ctx ai_analysis =
     (case ai_analysis of
        None \<Rightarrow> Inl AttributeError
      | Some ai \<Rightarrow>
          (case bc_customer_profile bank_ctx of
             None \<Rightarrow> Inl AttributeError
           | Some profile \<Rightarrow>
               (case bc_recent_transactions bank_ctx of
                  None \<Rightarrow> Inl TypeError
                | Some recent \<Rightarrow>
                    Inr \<lparr>ar_transaction_id = transaction_id transaction_data,
                         ar_timestamp = now,
                         ar_risk_assessment =
                           \<lparr>ra_risk_level = (case risk_level ai of
                                None \<Rightarrow> RiskLevel_MEDIUM | Some l \<Rightarrow> l),
                            ra_risk_score = (case risk_score ai of None \<Rightarrow> 50 | Some s \<Rightarrow> s),
                            ra_primary_factors = get_list (risk_factors ai),
                            ra_confidence = (case confidence ai of None \<Rightarrow> 0.5 | Some c \<Rightarrow> c),
                            ra_ai_provider = (case ai_provider ai of
                                None \<Rightarrow> ''local'' | Some p \<Rightarrow> p)\<rparr>,
                         ar_detected_patterns = get_list (detected_patterns ai),
                         ar_recommended_actions = get_list (recommended_actions ai),
                         ar_system_info =
                           \<lparr>si_bank_system = bc_system_type bank_ctx,
                            si_simulation_mode = bc_simulation_mode bank_ctx,
                            si_analysis_method = (case analysis_method ai of
                                None \<Rightarrow> ''local_intelligence'' | Some m \<Rightarrow> m)\<rparr>,
                         ar_context =
                           \<lparr>customer_risk_tier = (case risk_tier profile of
                                None \<Rightarrow> ''unknown'' | Some t \<Rightarrow> t),
                            transaction_count = length recent,
                            customer_since_days = (case account_age_days profile of
                                None \<Rightarrow> 0 | Some d \<Rightarrow> d)\<rparr>\<rparr>)))"

text \<open>
  The format \<^verbatim>\<open>f"ALERT_{n:06d}"\<close> of a non-negative integer: its decimal digits, padded
  on the left with zeros to at least six characters.
\<close>

definition digit_char :: "nat \<Rightarrow> char" where
  "digit_char d = ''0123456789'' ! d"

fun decimal :: "nat \<Rightarrow> string" where
  "decimal n = (if n < 10 then [digit_char n]
                else decimal (n div 10) @ [digit_char (n mod 10)])"

declare decimal.simps [simp del]

definition format_06d :: "nat \<Rightarrow> string" where
  "format_06d n = replicate (6 - length (decimal n)) (CHR ''0'') @ decimal n"

definition format_alert_id :: "nat \<Rightarrow> string" where
  "format_alert_id n = ''ALERT_'' @ format_06d n"

record 'b assistant =
  ai_engine :: engine
  bank_state :: 'b
  alert_counter :: nat

text \<open>
  The alert dictionary of \<^verbatim>\<open>_submit_alert\<close>. The reasoning text is the fixed prefix
  "High risk transaction detected: " followed by the printed list of primary factors;
  the field holds that list.
\<close>

definition make_alert :: "nat \<Rightarrow> nat \<Rightarrow> analysis_result \<Rightarrow> alert" where
  "make_alert counter now res =
     \<lparr>alert_id = format_alert_id counter,
      al_transaction_id = ar_transaction_id res,
      al_risk_level = ra_risk_level (ar_risk_assessment res),
      al_risk_score = ra_risk_score (ar_risk_assessment res),
      al_detected_patterns = ar_detected_patterns res,
      al_reasoning = ra_primary_factors (ar_risk_assessment res),
      al_timestamp = now\<rparr>"

text \<open>
  \<^verbatim>\<open>_submit_alert\<close>: the counter is incremented first; then the bank system is called
  inside \<^verbatim>\<open>try\<close>, and its answer (true, false or an exception) is only logged.
\<close>

definition submit_alert ::
  "'b bank_system \<Rightarrow> nat \<Rightarrow> 'b assistant \<Rightarrow> analysis_result \<Rightarrow> 'b assistant" where
  "submit_alert sys now st res =
     (let counter = alert_counter st + 1;
          alert_data = make_alert counter now res;
          (success, bst) = bs_submit_alert sys (bank_state st) alert_data
      in st\<lparr>alert_counter := counter, bank_state := bst\<rparr>)"

text \<open>
  \<^verbatim>\<open>UltimateAMLAssistant.analyze_transaction\<close>: the returned result or the exception that
  leaves the coroutine, and the assistant afterwards.
\<close>

definition assistant_analyze_transaction ::
  "config \<Rightarrow> 'b bank_system \<Rightarrow> nat \<Rightarrow> 'b assistant \<Rightarrow> transaction
     \<Rightarrow> (error + analysis_result) \<times> 'b assistant" where
  "assistant_analyze_transaction cfg sys now st transaction_data =
     (case process_transaction sys (bank_state st) transaction_data of
        Inl e \<Rightarrow> (Inl e, st)
      | Inr bank_ctx \<Rightarrow>
          (case engine_analyze_transaction cfg now (ai_engine st) transaction_data
                  (bc_customer_profile bank_ctx) of
             (Inl e, eng, calls) \<Rightarrow> (Inl e, st\<lparr>ai_engine := eng\<rparr>)
           | (Inr ai_analysis, eng, calls) \<Rightarrow>
               (case generate_comprehensive_result now transaction_data bank_ctx
                       ai_analysis of
                  Inl e \<Rightarrow> (Inl e, st\<lparr>ai_engine := eng\<rparr>)
                | Inr res \<Rightarrow>
                    (if ra_risk_level (ar_risk_assessment res)
                          \<in> set [RiskLevel_HIGH, RiskLevel_SEVERE]
                     then (Inr res, submit_alert sys now (st\<lparr>ai_engine := eng\<rparr>) res)
                     else (Inr res, st\<lparr>ai_engine := eng\<rparr>)))))"

text \<open>
  A process lifetime: the requests served one after the other, whatever each returns or
  raises. Each request comes with its clock reading.
\<close>

fun serve ::
  "config \<Rightarrow> 'b bank_system \<Rightarrow> 'b assistant \<Rightarrow> (nat \<times> transaction) list \<Rightarrow> 'b assistant" where
  "serve cfg sys st [] = st"
| "serve cfg sys st ((now, transaction_data) # reqs) =
     serve cfg sys (snd (assistant_analyze_transaction cfg sys now st transaction_data)) reqs"

section \<open>Notions used to state the properties\<close>

text \<open>
  A sequence of record operations on the learning memory: each request is stored with
  \<open>store_analysis_result\<close>, and the sequence stops at the first exception.
\<close>

type_synonym record_request = "nat \<times> transaction \<times> customer_profile option \<times> analysis"

definition make_entry :: "record_request \<Rightarrow> learning_entry" where
  "make_entry q =
     (case q of (now, transaction_data, customer_data, result) \<Rightarrow>
        \<lparr>le_timestamp = now, le_transaction = transaction_data,
         le_customer = customer_data, le_result = result, le_feedback = None\<rparr>)"

fun record_all :: "config \<Rightarrow> learning_entry list \<Rightarrow> record_request list
    \<Rightarrow> error + learning_entry list" where
  "record_all cfg memory [] = Inr memory"
| "record_all cfg memory ((now, transaction_data, customer_data, result) # reqs) =
     (case store_analysis_result cfg now memory transaction_data customer_data result of
        Inl e \<Rightarrow> Inl e
      | Inr memory' \<Rightarrow> record_all cfg memory' reqs)"

text \<open>
  Threshold consistency of a score and a level, in the specification's words: a score at
  or above the configured \<open>high_risk_score\<close> comes with the level high or severe.
\<close>

definition threshold_consistent :: "config \<Rightarrow> real \<Rightarrow> string \<Rightarrow> bool" where
  "threshold_consistent cfg score level =
     (score \<ge> real_of_int (high_risk_score cfg)
        \<longrightarrow> level \<in> {RiskLevel_HIGH, RiskLevel_SEVERE})"

text \<open>
  The number an alert identifier carries: the decimal value of what follows the six
  characters of the prefix. Identifiers are ordered by this number.
\<close>

definition digit_value :: "char \<Rightarrow> nat" where
  "digit_value c = of_char c - 48"

definition decimal_value :: "string \<Rightarrow> nat" where
  "decimal_value s = foldl (\<lambda>acc c. 10 * acc + digit_value c) 0 s"

definition alert_number :: "string \<Rightarrow> nat" where
  "alert_number s = decimal_value (drop 6 s)"

text \<open>Whether a backend call returns a dictionary.\<close>

definition returns_result :: "provider_outcome \<Rightarrow> bool" where
  "returns_result out = (case out of Returns r \<Rightarrow> True | _ \<Rightarrow> False)"

text \<open>
  The order in which \<^verbatim>\<open>analyze_transaction\<close> attempts the backends: the primary when it
  is registered, then the other registered backends in registration order. An attempt
  fails when its \<^verbatim>\<open>try\<close> block is left by an exception (the backend raises or returns
  \<^verbatim>\<open>None\<close>, or storing the result raises). The ultimate call is the call of the backend
  registered under \<^verbatim>\<open>local\<close>, when there is one.
\<close>

definition attempt_order :: "engine \<Rightarrow> (string \<times> provider) list" where
  "attempt_order eng =
     (case map_of (available_providers eng) (provider eng) of
        None \<Rightarrow> []
      | Some prov \<Rightarrow> [(provider eng, prov)])
     @ filter (\<lambda>a. fst a \<noteq> provider eng) (available_providers eng)"

definition attempt_fails ::
  "config \<Rightarrow> nat \<Rightarrow> engine \<Rightarrow> transaction \<Rightarrow> customer_profile option
     \<Rightarrow> string \<times> provider \<Rightarrow> bool" where
  "attempt_fails cfg now eng transaction_data customer_data a =
     (case try_provider cfg now eng (fst a \<noteq> provider eng) (fst a) (snd a)
             transaction_data customer_data of
        Inl e \<Rightarrow> True
      | Inr found \<Rightarrow> False)"

definition ultimate_call :: "engine \<Rightarrow> string list" where
  "ultimate_call eng =
     (case map_of (available_providers eng) ''local'' of
        None \<Rightarrow> []
      | Some prov \<Rightarrow> [''local''])"

text \<open>
  The confidence policy in the specification's words: the base confidence of the
  backend, the performance metric of the backend (0.8 when nothing is recorded for it),
  the complexity factor, and the weighted sum clamped to the unit interval.
\<close>

definition base_confidence :: "analysis \<Rightarrow> real" where
  "base_confidence r = (case confidence r of None \<Rightarrow> 0.5 | Some c \<Rightarrow> c)"

definition backend_performance :: "engine \<Rightarrow> analysis \<Rightarrow> real" where
  "backend_performance eng r =
     (case performance_metrics eng (case ai_provider r of None \<Rightarrow> ''local'' | Some p \<Rightarrow> p) of
        None \<Rightarrow> 0.8
      | Some m \<Rightarrow> (case m ''accuracy'' of None \<Rightarrow> 0.8 | Some a \<Rightarrow> a))"

definition complexity_factor :: "analysis \<Rightarrow> real" where
  "complexity_factor r = min (real (length (get_list (risk_factors r))) / 10) 1"

definition weighted_confidence :: "engine \<Rightarrow> analysis \<Rightarrow> real" where
  "weighted_confidence eng r =
     0.6 * base_confidence r + 0.3 * backend_performance eng r + 0.1 * complexity_factor r"

definition spec_confidence :: "engine \<Rightarrow> analysis \<Rightarrow> real" where
  "spec_confidence eng r = max 0 (min 1 (weighted_confidence eng r))"

section \<open>Sample inputs\<close>

text \<open>The three transactions of the demonstration in \<^verbatim>\<open>main.py\<close>.\<close>

definition demo_normal :: transaction where
  "demo_normal = \<lparr>transaction_id = Some ''DEMO_NORMAL_001'', customer_id = Some ''CUST002'',
     details = [(''amount'', ''2500.00''), (''type'', ''wire_transfer''),
       (''currency'', ''USD''), (''counterparty'', ''Regular Supplier''),
       (''channel'', ''online''), (''description'', ''Monthly service payment'')]\<rparr>"

definition demo_high_risk :: transaction where
  "demo_high_risk = \<lparr>transaction_id = Some ''DEMO_HIGH_RISK_001'',
     customer_id = Some ''CUST003'',
     details = [(''amount'', ''15000.00''), (''type'', ''cash_deposit''),
       (''currency'', ''USD''), (''counterparty'', ''Unknown''),
       (''channel'', ''branch''), (''description'', ''Large cash deposit'')]\<rparr>"

definition demo_struct :: transaction where
  "demo_struct = \<lparr>transaction_id = Some ''DEMO_STRUCT_001'', customer_id = Some ''CUST001'',
     details = [(''amount'', ''9500.00''), (''type'', ''cash_deposit''),
       (''currency'', ''USD''), (''counterparty'', ''Multiple Sources''),
       (''channel'', ''branch''), (''description'', ''Business cash deposit'')]\<rparr>"

text \<open>The dictionary \<^verbatim>\<open>LocalIntelligenceProvider.analyze\<close> returns, written out.\<close>

definition local_result :: analysis where
  "local_result =
     \<lparr>risk_level = Some ''medium'', risk_score = Some 65,
      risk_factors = Some [''rule_based_factor_1'', ''rule_based_factor_2'',
        ''pattern_based_factor_1''],
      recommended_actions = Some [''action_1'', ''action_2''],
      detected_patterns = Some [''structuring'', ''unusual_behavior''],
      confidence = Some 0.7, analysis_method = Some ''local_intelligence'',
      ai_provider = None, fallback_used = None\<rparr>"

text \<open>
  The engine as \<^verbatim>\<open>__init__\<close> leaves it, for a primary provider name, an API key and an
  OpenAI backend: empty learning memory, no performance metrics.
\<close>

definition new_engine :: "string \<Rightarrow> string option \<Rightarrow> provider option \<Rightarrow> engine" where
  "new_engine primary api_key openai =
     \<lparr>provider = primary,
      available_providers = initialize_providers api_key openai,
      learning_memory = [],
      performance_metrics = Map.empty\<rparr>"

text \<open>A scoring backend that is down, and one that reports a high risk.\<close>

definition failing_backend :: provider where
  "failing_backend transaction_data customer_data = Raises ''backend unavailable''"

definition high_risk_backend :: provider where
  "high_risk_backend transaction_data customer_data =
     Returns (local_result\<lparr>risk_level := Some ''high'', risk_score := Some 85\<rparr>)"

text \<open>
  The assistant as \<^verbatim>\<open>__init__\<close> leaves it, on the simulation: no alert submitted, counter
  at zero.
\<close>

definition new_assistant :: "engine \<Rightarrow> alert list assistant" where
  "new_assistant eng = \<lparr>ai_engine = eng, bank_state = [], alert_counter = 0\<rparr>"

text \<open>A bank system whose alert submission always raises.\<close>

definition unreachable_bank :: "alert list bank_system" where
  "unreachable_bank =
     SimulationSystem\<lparr>bs_submit_alert :=
       (\<lambda>alerts alert_data. (Inl (BackendError ''bank system unreachable''), alerts))\<rparr>"

text \<open>
  The result of analysing \<open>demo_high_risk\<close> at time 1 on the simulation, when the primary
  backend \<^verbatim>\<open>openai\<close> is \<open>high_risk_backend\<close>.
\<close>

definition demo_high_risk_result :: analysis_result where
  "demo_high_risk_result =
     \<lparr>ar_transaction_id = Some ''DEMO_HIGH_RISK_001'',
      ar_timestamp = 1,
      ar_risk_assessment =
        \<lparr>ra_risk_level = ''high'', ra_risk_score = 85,
         ra_primary_factors = [''rule_based_factor_1'', ''rule_based_factor_2'',
           ''pattern_based_factor_1''],
         ra_confidence = 0.69, ra_ai_provider = ''openai''\<rparr>,
      ar_detected_patterns = [''structuring'', ''unusual_behavior''],
      ar_recommended_actions = [''action_1'', ''action_2''],
      ar_system_info =
        \<lparr>si_bank_system = ''SimulationSystem'', si_simulation_mode = True,
         si_analysis_method = ''local_intelligence''\<rparr>,
      ar_context =
        \<lparr>customer_risk_tier = ''high_risk'', transaction_count = 0,
         customer_since_days = 730\<rparr>\<rparr>"

text \<open>
  The invariant of the alerts the simulation has received: their numbers increase along
  the list and none exceeds the assistant's counter.
\<close>

definition alerts_ok :: "alert list assistant \<Rightarrow> bool" where
  "alerts_ok st \<longleftrightarrow>
     sorted_wrt (<) (map (\<lambda>a. alert_number (alert_id a)) (bank_state st))
     \<and> (\<forall>a \<in> set (bank_state st). alert_number (alert_id a) \<le> alert_counter st)"

section \<open>The local backend and the learning memory: basic facts\<close>

lemma local_analyze_result: "local_analyze t c = Returns local_result"
  by (simp add: local_analyze_def local_result_def fuse_results_def rule_engine_analyze_def
      detect_patterns_def calculate_risk_def get_list_def)

lemma store_step:
  assumes "0 < pattern_memory_size cfg" and "int (length memory) \<le> pattern_memory_size cfg"
  shows "store_analysis_result cfg now memory t c r =
           Inr (drop (Suc (length memory) - nat (pattern_memory_size cfg))
                  (memory @ [make_entry (now, t, c, r)]))"
proof (cases "int (length memory) \<ge> pattern_memory_size cfg")
  case True
  with assms have len: "length memory = nat (pattern_memory_size cfg)" by linarith
  with assms obtain x xs where m: "memory = x # xs" by (cases memory) auto
  have "Suc (length memory) - nat (pattern_memory_size cfg) = 1" using len by simp
  then show ?thesis using True m
    by (simp add: store_analysis_result_def make_entry_def)
next
  case False
  then have "Suc (length memory) - nat (pattern_memory_size cfg) = 0" by linarith
  then show ?thesis using False
    by (simp add: store_analysis_result_def make_entry_def)
qed

lemma record_all_fifo:
  assumes "0 < pattern_memory_size cfg" and "int (length memory) \<le> pattern_memory_size cfg"
  shows "record_all cfg memory reqs =
           Inr (drop (length memory + length reqs - nat (pattern_memory_size cfg))
                  (memory @ map make_entry reqs))"
  using assms(2)
proof (induction reqs arbitrary: memory)
  case Nil
  then show ?case by simp
next
  case (Cons q reqs)
  obtain now t c r where q: "q = (now, t, c, r)" by (cases q) auto
  let ?cap = "nat (pattern_memory_size cfg)"
  let ?m' = "drop (Suc (length memory) - ?cap) (memory @ [make_entry q])"
  have st: "store_analysis_result cfg now memory t c r = Inr ?m'"
    using store_step[OF assms(1) Cons.prems] q by simp
  have len': "int (length ?m') \<le> pattern_memory_size cfg"
    using Cons.prems assms(1) by simp
  have "record_all cfg memory (q # reqs) = record_all cfg ?m' reqs"
    using st q by simp
  also have "\<dots> = Inr (drop (length ?m' + length reqs - ?cap) (?m' @ map make_entry reqs))"
    using Cons.IH[OF len'] .
  also have "drop (length ?m' + length reqs - ?cap) (?m' @ map make_entry reqs)
           = drop (length memory + length (q # reqs) - ?cap)
               (memory @ map make_entry (q # reqs))"
  proof (cases "Suc (length memory) \<le> ?cap")
    case True
    then show ?thesis by simp
  next
    case False
    with Cons.prems have "length memory = ?cap" by linarith
    then show ?thesis using assms(1) by (cases memory) auto
  qed
  finally show ?case .
qed

lemma attach_feedback_first_match:
  "attach_feedback memory tid fb =
     (let i = length (takeWhile (\<lambda>e. transaction_id (le_transaction e) \<noteq> Some tid) memory)
      in if i < length memory
         then memory[i := (memory ! i)\<lparr>le_feedback := Some fb\<rparr>]
         else memory)"
  by (induction memory) (auto simp: Let_def)

lemma calculate_confidence_eq:
  "calculate_confidence eng r = min (weighted_confidence eng r) 1"
  by (simp add: calculate_confidence_def weighted_confidence_def base_confidence_def
      backend_performance_def complexity_factor_def Let_def mult.commute
      split: option.splits)

lemma weighted_nonneg:
  "0 \<le> base_confidence r \<Longrightarrow> 0 \<le> backend_performance eng r
     \<Longrightarrow> 0 \<le> weighted_confidence eng r"
  by (simp add: weighted_confidence_def complexity_factor_def)

section \<open>Confidence calculation\<close>

text \<open>
  C3, as stated: the adjusted confidence is the weighted sum clamped to the interval
  from 0 to 1. The source applies \<^verbatim>\<open>min(final_confidence, 1.0)\<close> only; a backend that
  reports the base confidence -1 with no risk factors gets -0.36, below the interval.
\<close>

theorem confidence_not_clamped_below:
  "calculate_confidence (new_engine ''local'' None None)
     (local_result\<lparr>confidence := Some (- 1), risk_factors := Some []\<rparr>) = - 0.36
   \<and> spec_confidence (new_engine ''local'' None None)
     (local_result\<lparr>confidence := Some (- 1), risk_factors := Some []\<rparr>) = 0"
  by (simp add: calculate_confidence_def spec_confidence_def weighted_confidence_def
      base_confidence_def backend_performance_def complexity_factor_def new_engine_def
      local_result_def get_list_def)

text \<open>
  C3, amended: the adjusted confidence is 0.6 times the base confidence plus 0.3 times the
  backend performance (0.8 when nothing is recorded for the backend) plus 0.1 times the
  complexity factor, capped at 1 from above. There is no lower clamp; the value lies in
  the unit interval, and is the specification's clamped value, whenever the base
  confidence and the backend performance are not negative.
\<close>

theorem confidence_weighted_and_capped:
  "calculate_confidence eng r = min (weighted_confidence eng r) 1
   \<and> calculate_confidence eng r \<le> 1
   \<and> (0 \<le> base_confidence r \<and> 0 \<le> backend_performance eng r
        \<longrightarrow> 0 \<le> calculate_confidence eng r
            \<and> calculate_confidence eng r = spec_confidence eng r)"
proof -
  have eq: "calculate_confidence eng r = min (weighted_confidence eng r) 1"
    by (rule calculate_confidence_eq)
  have le: "calculate_confidence eng r \<le> 1"
    by (simp add: eq)
  have pos: "0 \<le> calculate_confidence eng r
      \<and> calculate_confidence eng r = spec_confidence eng r"
    if "0 \<le> base_confidence r" "0 \<le> backend_performance eng r"
  proof -
    have "0 \<le> weighted_confidence eng r" using that by (rule weighted_nonneg)
    then show ?thesis by (simp add: eq spec_confidence_def min_def max_def)
  qed
  show ?thesis using eq le pos by blast
qed

theorem confidence_weighted_and_capped_witness:
  "base_confidence (local_result\<lparr>ai_provider := Some ''local''\<rparr>) = 0.7
   \<and> backend_performance (new_engine ''local'' None None)
        (local_result\<lparr>ai_provider := Some ''local''\<rparr>) = 0.8
   \<and> complexity_factor (local_result\<lparr>ai_provider := Some ''local''\<rparr>) = 0.3
   \<and> calculate_confidence (new_engine ''local'' None None)
        (local_result\<lparr>ai_provider := Some ''local''\<rparr>) = 0.69
   \<and> spec_confidence (new_engine ''local'' None None)
        (local_result\<lparr>ai_provider := Some ''local''\<rparr>) = 0.69"
  using confidence_weighted_and_capped [of "new_engine ''local'' None None"
      "local_result\<lparr>ai_provider := Some ''local''\<rparr>"]
  by (simp add: weighted_confidence_def base_confidence_def backend_performance_def
      complexity_factor_def new_engine_def local_result_def get_list_def)

section \<open>Learning store\<close>

text \<open>
  C5: the learning store is a bounded first-in-first-out buffer. For a positive
  configured capacity and a memory within it, every sequence of record operations
  succeeds and leaves a memory that is within the capacity and holds exactly the most
  recent entries, as many as the capacity allows, in insertion order; so after one
  insertion more than the capacity the first-inserted entry is gone.
\<close>

theorem learning_store_bounded_fifo:
  assumes "0 < pattern_memory_size cfg"
    and "int (length memory) \<le> pattern_memory_size cfg"
  shows "\<exists>memory'. record_all cfg memory reqs = Inr memory'
           \<and> int (length memory') \<le> pattern_memory_size cfg
           \<and> memory' = drop (length memory + length reqs - nat (pattern_memory_size cfg))
                          (memory @ map make_entry reqs)"
proof -
  let ?m = "drop (length memory + length reqs - nat (pattern_memory_size cfg))
              (memory @ map make_entry reqs)"
  have "record_all cfg memory reqs = Inr ?m"
    using assms by (rule record_all_fifo)
  moreover have "int (length ?m) \<le> pattern_memory_size cfg"
    using assms by simp
  ultimately show ?thesis by blast
qed

theorem learning_store_bounded_fifo_witness:
  "0 < pattern_memory_size (default_config\<lparr>pattern_memory_size := 2\<rparr>)
   \<and> int (length ([] :: learning_entry list))
        \<le> pattern_memory_size (default_config\<lparr>pattern_memory_size := 2\<rparr>)
   \<and> record_all (default_config\<lparr>pattern_memory_size := 2\<rparr>) []
        [(1, demo_normal, None, local_result), (2, demo_high_risk, None, local_result),
         (3, demo_struct, None, local_result)]
      = Inr [make_entry (2, demo_high_risk, None, local_result),
             make_entry (3, demo_struct, None, local_result)]"
  using learning_store_bounded_fifo [of "default_config\<lparr>pattern_memory_size := 2\<rparr>" "[]"
      "[(1, demo_normal, None, local_result), (2, demo_high_risk, None, local_result),
        (3, demo_struct, None, local_result)]"]
  by (simp add: default_config_def)

section \<open>Feedback\<close>

text \<open>
  C6, as stated: feedback goes to the most recent entry with the transaction id. With two
  entries recorded for the same transaction, at times 1 and 2, the loop of
  \<^verbatim>\<open>learn_from_feedback\<close> stops at the entry of time 1, the oldest, and the most recent
  one keeps no feedback.
\<close>

theorem feedback_goes_to_oldest_match:
  "record_all default_config []
     [(1, demo_normal, None, local_result), (2, demo_normal, None, local_result)]
     = Inr [make_entry (1, demo_normal, None, local_result),
            make_entry (2, demo_normal, None, local_result)]
   \<and> map le_timestamp (learning_memory
        (learn_from_feedback
          ((new_engine ''local'' None None)\<lparr>learning_memory :=
             [make_entry (1, demo_normal, None, local_result),
              make_entry (2, demo_normal, None, local_result)]\<rparr>)
          ''DEMO_NORMAL_001'' local_result)) = [1, 2]
   \<and> map le_feedback (learning_memory
        (learn_from_feedback
          ((new_engine ''local'' None None)\<lparr>learning_memory :=
             [make_entry (1, demo_normal, None, local_result),
              make_entry (2, demo_normal, None, local_result)]\<rparr>)
          ''DEMO_NORMAL_001'' local_result)) = [Some local_result, None]"
  by (simp add: learn_from_feedback_def make_entry_def demo_normal_def
      store_analysis_result_def default_config_def)

text \<open>
  C6, amended: each call attaches the feedback to the first entry in store order, the
  oldest, whose transaction id matches, and to no entry when none matches; every other
  entry, the order of the memory and the rest of the engine are unchanged.
\<close>

theorem feedback_attaches_to_first_match:
  "learn_from_feedback eng tid fb =
     eng\<lparr>learning_memory :=
       (let memory = learning_memory eng;
            i = length (takeWhile (\<lambda>e. transaction_id (le_transaction e) \<noteq> Some tid) memory)
        in if i < length memory
           then memory[i := (memory ! i)\<lparr>le_feedback := Some fb\<rparr>]
           else memory)\<rparr>"
  by (simp add: learn_from_feedback_def attach_feedback_first_match Let_def)

section \<open>Result fusion\<close>

text \<open>
  C4, as stated: fusion maps the score to the level through the configured thresholds,
  so a score at or above \<open>high_risk_score\<close> comes with the level high or severe.
  \<^verbatim>\<open>_fuse_results\<close> writes the level medium whatever the score: for the score 70 under
  the default threshold 70, and for the local backend's own score 65 once the threshold
  is configured as 60, the fused level is medium.
\<close>

theorem fusion_ignores_thresholds:
  "fr_risk_score (fuse_results (rule_engine_analyze demo_high_risk (Some CUST003))
       (detect_patterns demo_high_risk (Some CUST003)) 70) = 70
   \<and> fr_risk_level (fuse_results (rule_engine_analyze demo_high_risk (Some CUST003))
       (detect_patterns demo_high_risk (Some CUST003)) 70) = ''medium''
   \<and> \<not> threshold_consistent default_config 70 ''medium''
   \<and> local_analyze demo_high_risk (Some CUST003) = Returns local_result
   \<and> risk_score local_result = Some 65 \<and> risk_level local_result = Some ''medium''
   \<and> \<not> threshold_consistent (default_config\<lparr>high_risk_score := 60\<rparr>) 65 ''medium''"
  by (simp add: fuse_results_def threshold_consistent_def default_config_def
      RiskLevel_HIGH_def RiskLevel_SEVERE_def local_analyze_result local_result_def)

text \<open>
  C4, amended: fusion assigns the level medium to every score and passes the score
  through, without reading the thresholds. The local backend always returns the score 65
  with the level medium, so its results are threshold-consistent exactly when the
  configured \<open>high_risk_score\<close> is above 65, as the default 70 is.
\<close>

theorem fusion_level_always_medium:
  "fr_risk_level (fuse_results rule_res pattern_res score) = RiskLevel_MEDIUM
   \<and> fr_risk_score (fuse_results rule_res pattern_res score) = score
   \<and> local_analyze t c = Returns local_result
   \<and> risk_level local_result = Some RiskLevel_MEDIUM
   \<and> risk_score local_result = Some 65
   \<and> (threshold_consistent cfg 65 RiskLevel_MEDIUM \<longleftrightarrow> 65 < high_risk_score cfg)"
  by (auto simp add: fuse_results_def threshold_consistent_def RiskLevel_HIGH_def
      RiskLevel_SEVERE_def RiskLevel_MEDIUM_def local_analyze_result local_result_def)

theorem fusion_level_always_medium_witness:
  "local_analyze demo_struct (Some CUST001) = Returns local_result
   \<and> threshold_consistent default_config 65 RiskLevel_MEDIUM
   \<and> 65 < high_risk_score default_config"
  using fusion_level_always_medium [of "rule_engine_analyze demo_struct (Some CUST001)"
      "detect_patterns demo_struct (Some CUST001)" 65 demo_struct "Some CUST001"
      default_config]
  by (simp add: default_config_def)

section \<open>The fallback sweep: lemmas\<close>

lemma init_local: "initialize_providers None None = [(''local'', local_analyze)]"
  by (simp add: initialize_providers_def check_openai_availability_def)

lemma init_openai: "initialize_providers (Some ''sk-demo'') (Some p) =
   [(''openai'', p), (''local'', local_analyze), (''hybrid'', hybrid_analyze)]"
  by (simp add: initialize_providers_def check_openai_availability_def create_openai_provider_def)

lemma store_succeeds:
  assumes "0 < pattern_memory_size cfg \<or> memory \<noteq> []"
  shows "\<exists>m. store_analysis_result cfg now memory t c r = Inr m"
  using assms by (cases memory) (auto simp: store_analysis_result_def Let_def)

lemma try_provider_fails:
  "\<not> returns_result (prov t c) \<Longrightarrow> \<exists>e. try_provider cfg now eng fb n prov t c = Inl e"
  by (cases "prov t c") (auto simp: try_provider_def returns_result_def)

lemma try_provider_succeeds:
  assumes "0 < pattern_memory_size cfg" and "returns_result (prov t c)"
  shows "\<exists>res eng'. try_provider cfg now eng fb n prov t c = Inr (res, eng')"
proof -
  from assms(2) obtain r0 where r0: "prov t c = Returns r0"
    by (cases "prov t c") (auto simp: returns_result_def)
  let ?r1 = "r0\<lparr>ai_provider := Some n\<rparr>"
  let ?r2 = "?r1\<lparr>confidence := Some (calculate_confidence eng ?r1)\<rparr>"
  let ?r = "if fb then ?r2\<lparr>fallback_used := Some True\<rparr> else ?r2"
  obtain m where "store_analysis_result cfg now (learning_memory eng) t c ?r = Inr m"
    using store_succeeds[of cfg "learning_memory eng" now t c ?r] assms(1) by blast
  then show ?thesis using r0
    by (simp add: try_provider_def Let_def)
qed

lemma try_provider_tags:
  assumes "try_provider cfg now eng fb n prov t c = Inr (res, eng')"
  shows "ai_provider res = Some n \<and> (fb \<longrightarrow> fallback_used res = Some True)
         \<and> confidence res \<noteq> None"
  using assms
  by (auto simp: try_provider_def Let_def split: provider_outcome.splits sum.splits if_splits)

lemma sweep_Cons_fst:
  "fst (fallback_sweep cfg now eng prim t c ((n, p) # ps)) =
     (if n \<noteq> prim
      then (case try_provider cfg now eng True n p t c of
              Inr found \<Rightarrow> Some found
            | Inl e \<Rightarrow> fst (fallback_sweep cfg now eng prim t c ps))
      else fst (fallback_sweep cfg now eng prim t c ps))"
  by (simp add: case_prod_beta split: sum.splits)

lemma sweep_Cons_snd:
  "snd (fallback_sweep cfg now eng prim t c ((n, p) # ps)) =
     (if n \<noteq> prim
      then (case try_provider cfg now eng True n p t c of
              Inr found \<Rightarrow> [n]
            | Inl e \<Rightarrow> n # snd (fallback_sweep cfg now eng prim t c ps))
      else snd (fallback_sweep cfg now eng prim t c ps))"
  by (simp add: case_prod_beta split: sum.splits)

lemma sweep_success_tags:
  "fst (fallback_sweep cfg now eng prim t c ps) = Some (res, eng')
   \<Longrightarrow> fallback_used res = Some True
       \<and> (\<exists>n. ai_provider res = Some n \<and> n \<noteq> prim \<and> n \<in> fst ` set ps)"
proof (induction ps)
  case Nil
  then show ?case by simp
next
  case (Cons a ps)
  obtain n p where a: "a = (n, p)" by (cases a) auto
  show ?case
  proof (cases "n \<noteq> prim")
    case True
    show ?thesis
    proof (cases "try_provider cfg now eng True n p t c")
      case (Inl e)
      then have "fst (fallback_sweep cfg now eng prim t c ps) = Some (res, eng')"
        using Cons.prems True unfolding a sweep_Cons_fst by simp
      then show ?thesis using Cons.IH by auto
    next
      case (Inr found)
      then have "found = (res, eng')"
        using Cons.prems True unfolding a sweep_Cons_fst by simp
      then show ?thesis
        using Inr True try_provider_tags[of cfg now eng True n p t c res eng'] a by auto
    qed
  next
    case False
    then have "fst (fallback_sweep cfg now eng prim t c ps) = Some (res, eng')"
      using Cons.prems unfolding a sweep_Cons_fst by simp
    then show ?thesis using Cons.IH by auto
  qed
qed

lemma sweep_finds:
  assumes "0 < pattern_memory_size cfg"
  shows "(n, p) \<in> set ps \<Longrightarrow> n \<noteq> prim \<Longrightarrow> returns_result (p t c)
         \<Longrightarrow> fst (fallback_sweep cfg now eng prim t c ps) \<noteq> None"
proof (induction ps)
  case Nil
  then show ?case by simp
next
  case (Cons a ps)
  obtain m q where a: "a = (m, q)" by (cases a) auto
  show ?case
  proof (cases "m \<noteq> prim")
    case True
    show ?thesis
    proof (cases "try_provider cfg now eng True m q t c")
      case (Inl e)
      have "(n, p) \<noteq> (m, q)"
        using try_provider_succeeds[OF assms, of q t c now eng True m] Inl Cons.prems(3)
        by auto
      then have "(n, p) \<in> set ps" using Cons.prems(1) a by auto
      then have "fst (fallback_sweep cfg now eng prim t c ps) \<noteq> None"
        using Cons.IH Cons.prems by blast
      then show ?thesis using Inl True unfolding a sweep_Cons_fst by simp
    next
      case (Inr found)
      then show ?thesis using True unfolding a sweep_Cons_fst by simp
    qed
  next
    case False
    then have "(n, p) \<in> set ps" using Cons.prems a by auto
    then have "fst (fallback_sweep cfg now eng prim t c ps) \<noteq> None"
      using Cons.IH Cons.prems by blast
    then show ?thesis using False unfolding a sweep_Cons_fst by simp
  qed
qed

lemma sweep_all_fail:
  "(\<And>n p. (n, p) \<in> set ps \<Longrightarrow> \<not> returns_result (p t c))
   \<Longrightarrow> fst (fallback_sweep cfg now eng prim t c ps) = None"
proof (induction ps)
  case Nil
  then show ?case by simp
next
  case (Cons a ps)
  obtain m q where a: "a = (m, q)" by (cases a) auto
  have "\<not> returns_result (q t c)" using Cons.prems[of m q] a by simp
  then obtain e where e: "try_provider cfg now eng True m q t c = Inl e"
    using try_provider_fails by blast
  have "fst (fallback_sweep cfg now eng prim t c ps) = None"
    using Cons.IH Cons.prems by (meson list.set_intros(2))
  then show ?case using e unfolding a sweep_Cons_fst by simp
qed

lemma after_primary_exhausted:
  "fst (fallback_sweep cfg now eng (provider eng) t c (available_providers eng)) = None
   \<Longrightarrow> fst (after_primary cfg now eng t c calls0) = fst (ultimate_fallback eng t c)
       \<and> fst (snd (after_primary cfg now eng t c calls0)) = eng"
  by (auto simp: after_primary_def split: prod.splits option.splits)

lemma after_primary_found:
  "fst (fallback_sweep cfg now eng (provider eng) t c (available_providers eng)) = Some (res, eng')
   \<Longrightarrow> fst (after_primary cfg now eng t c calls0) = Inr (Some res)"
  by (auto simp: after_primary_def split: prod.splits option.splits)

lemma ultimate_fallback_fails:
  "(\<And>n p. (n, p) \<in> set (available_providers eng) \<Longrightarrow> \<not> returns_result (p t c))
   \<Longrightarrow> (\<forall>r. fst (ultimate_fallback eng t c) \<noteq> Inr (Some r))
       \<and> fst (ultimate_fallback eng t c) \<noteq> Inl AllBackendsFailed"
proof -
  assume all: "\<And>n p. (n, p) \<in> set (available_providers eng) \<Longrightarrow> \<not> returns_result (p t c)"
  show ?thesis
  proof (cases "map_of (available_providers eng) ''local''")
    case None
    then show ?thesis by (simp add: ultimate_fallback_def)
  next
    case (Some prov)
    then have "(''local'', prov) \<in> set (available_providers eng)" by (rule map_of_SomeD)
    then have "\<not> returns_result (prov t c)" by (rule all)
    then show ?thesis using Some
      by (cases "prov t c") (simp_all add: ultimate_fallback_def returns_result_def)
  qed
qed

lemma ultimate_never_all_backends_failed:
  "fst (ultimate_fallback eng t c) \<noteq> Inl AllBackendsFailed"
  by (auto simp: ultimate_fallback_def split: option.splits provider_outcome.splits)

lemma sweep_calls_exact:
  "snd (fallback_sweep cfg now eng (provider eng) t c ps)
     = map fst (takeWhile (attempt_fails cfg now eng t c)
                  (filter (\<lambda>a. fst a \<noteq> provider eng) ps))
       @ map fst (take 1 (dropWhile (attempt_fails cfg now eng t c)
                  (filter (\<lambda>a. fst a \<noteq> provider eng) ps)))
   \<and> (fst (fallback_sweep cfg now eng (provider eng) t c ps) = None
        \<longleftrightarrow> dropWhile (attempt_fails cfg now eng t c)
              (filter (\<lambda>a. fst a \<noteq> provider eng) ps) = [])"
proof (induction ps)
  case Nil
  then show ?case by simp
next
  case (Cons a ps)
  obtain n p where a: "a = (n, p)" by (cases a) auto
  show ?case
  proof (cases "n \<noteq> provider eng")
    case False
    then show ?thesis using Cons unfolding a sweep_Cons_fst sweep_Cons_snd by simp
  next
    case True
    show ?thesis
    proof (cases "try_provider cfg now eng True n p t c")
      case (Inl e)
      then have "attempt_fails cfg now eng t c (n, p)"
        using True by (simp add: attempt_fails_def)
      then show ?thesis using Cons True Inl unfolding a sweep_Cons_fst sweep_Cons_snd
        by simp
    next
      case (Inr found)
      then have "\<not> attempt_fails cfg now eng t c (n, p)"
        using True by (simp add: attempt_fails_def)
      then show ?thesis using True Inr unfolding a sweep_Cons_fst sweep_Cons_snd
        by simp
    qed
  qed
qed

lemma ultimate_fallback_calls: "snd (ultimate_fallback eng t c) = ultimate_call eng"
  by (simp add: ultimate_fallback_def ultimate_call_def
      split: option.splits provider_outcome.splits)

lemma after_primary_calls_exact:
  "snd (snd (after_primary cfg now eng t c calls0))
     = calls0
       @ map fst (takeWhile (attempt_fails cfg now eng t c)
                    (filter (\<lambda>a. fst a \<noteq> provider eng) (available_providers eng)))
       @ (case dropWhile (attempt_fails cfg now eng t c)
                 (filter (\<lambda>a. fst a \<noteq> provider eng) (available_providers eng)) of
            [] \<Rightarrow> ultimate_call eng
          | a # rest \<Rightarrow> [fst a])"
proof -
  let ?sw = "fallback_sweep cfg now eng (provider eng) t c (available_providers eng)"
  let ?F = "attempt_fails cfg now eng t c"
  let ?order = "filter (\<lambda>a. fst a \<noteq> provider eng) (available_providers eng)"
  have calls: "snd ?sw = map fst (takeWhile ?F ?order) @ map fst (take 1 (dropWhile ?F ?order))"
    and none: "fst ?sw = None \<longleftrightarrow> dropWhile ?F ?order = []"
    using sweep_calls_exact[of cfg now eng t c "available_providers eng"] by auto
  show ?thesis
  proof (cases "fst ?sw")
    case None
    then have d: "dropWhile ?F ?order = []" using none by simp
    have h: "snd (snd (after_primary cfg now eng t c calls0))
        = calls0 @ snd ?sw @ snd (ultimate_fallback eng t c)"
      using None by (cases ?sw) (simp add: after_primary_def case_prod_beta)
    show ?thesis unfolding h calls d by (simp add: ultimate_fallback_calls)
  next
    case (Some found)
    then have "dropWhile ?F ?order \<noteq> []" using none by simp
    then obtain a rest where d: "dropWhile ?F ?order = a # rest"
      by (cases "dropWhile ?F ?order") auto
    have h: "snd (snd (after_primary cfg now eng t c calls0)) = calls0 @ snd ?sw"
      using Some by (cases ?sw; cases found) (simp add: after_primary_def)
    show ?thesis unfolding h calls d by simp
  qed
qed

lemma engine_calls_exact:
  "snd (snd (engine_analyze_transaction cfg now eng t c))
     = map fst (takeWhile (attempt_fails cfg now eng t c) (attempt_order eng))
       @ (case dropWhile (attempt_fails cfg now eng t c) (attempt_order eng) of
            [] \<Rightarrow> ultimate_call eng
          | a # rest \<Rightarrow> [fst a])"
proof (cases "map_of (available_providers eng) (provider eng)")
  case None
  then show ?thesis
    using after_primary_calls_exact[of cfg now eng t c "[]"]
    by (simp add: engine_analyze_transaction_def attempt_order_def)
next
  case (Some prov)
  show ?thesis
  proof (cases "try_provider cfg now eng False (provider eng) prov t c")
    case (Inl e)
    then have "attempt_fails cfg now eng t c (provider eng, prov)"
      by (simp add: attempt_fails_def)
    then show ?thesis
      using Some Inl after_primary_calls_exact[of cfg now eng t c "[provider eng]"]
      by (simp add: engine_analyze_transaction_def attempt_order_def)
  next
    case (Inr found)
    then have "\<not> attempt_fails cfg now eng t c (provider eng, prov)"
      by (simp add: attempt_fails_def)
    then show ?thesis using Some Inr
      by (cases found) (simp add: engine_analyze_transaction_def attempt_order_def)
  qed
qed

lemma attempt_order_names:
  "map fst (attempt_order eng)
     = (if map_of (available_providers eng) (provider eng) = None then [] else [provider eng])
       @ filter (\<lambda>n. n \<noteq> provider eng) (map fst (available_providers eng))"
  by (auto simp: attempt_order_def filter_map comp_def split: option.splits)

lemma attempt_order_distinct:
  "distinct (map fst (available_providers eng)) \<Longrightarrow> distinct (map fst (attempt_order eng))"
  by (simp add: attempt_order_names)

lemma attempt_order_local:
  assumes "map_of (available_providers eng) ''local'' \<noteq> None"
  shows "''local'' \<in> set (map fst (attempt_order eng))"
proof -
  from assms have mem: "''local'' \<in> fst ` set (available_providers eng)"
    by (simp add: map_of_eq_None_iff)
  show ?thesis
  proof (cases "provider eng = ''local''")
    case True
    then show ?thesis using assms by (simp add: attempt_order_names)
  next
    case False
    then show ?thesis using mem by (auto simp: attempt_order_names)
  qed
qed

section \<open>Fallback orchestration\<close>

text \<open>
  C1, as stated: no backend is attempted more than once per request, and the local backend
  is not invoked again after it has failed. The last statement of
  \<^verbatim>\<open>analyze_transaction\<close> calls the local backend unconditionally. With a local backend
  that is down, and also with the repository's own local backend when the learning store
  has capacity 0 (storing the result raises inside the \<^verbatim>\<open>try\<close> block, which counts as a
  failure of the backend), the local backend is called twice.
\<close>

theorem local_backend_invoked_twice:
  "snd (snd (engine_analyze_transaction default_config 1
      ((new_engine ''openai'' None None)\<lparr>available_providers := [(''local'', failing_backend)]\<rparr>)
      demo_normal (Some CUST002))) = [''local'', ''local'']
   \<and> engine_analyze_transaction (default_config\<lparr>pattern_memory_size := 0\<rparr>) 1
      (new_engine ''openai'' None None) demo_normal (Some CUST002)
     = (Inr (Some local_result), new_engine ''openai'' None None, [''local'', ''local''])"
  by (simp add: engine_analyze_transaction_def after_primary_def ultimate_fallback_def
      try_provider_def store_analysis_result_def new_engine_def init_local Let_def
      local_analyze_result failing_backend_def default_config_def)

text \<open>
  C1, amended: the calls of one request are exactly these. The backends are attempted in
  the attempt order, the primary first when it is registered and then the other
  registered backends in registration order, up to and including the first attempt that
  succeeds. When every attempt fails, the backend registered as local is called once
  more, the ultimate fallback. With distinct provider names no backend occurs twice in
  the attempt order, and a registered local backend is always in it: so when every
  attempt fails the calls are the whole attempt order followed by a second call of the
  local backend.
\<close>

theorem each_backend_once_then_local_again:
  "snd (snd (engine_analyze_transaction cfg now eng t c))
     = map fst (takeWhile (attempt_fails cfg now eng t c) (attempt_order eng))
       @ (case dropWhile (attempt_fails cfg now eng t c) (attempt_order eng) of
            [] \<Rightarrow> ultimate_call eng
          | a # rest \<Rightarrow> [fst a])
   \<and> map fst (attempt_order eng)
       = (if map_of (available_providers eng) (provider eng) = None then []
          else [provider eng])
         @ filter (\<lambda>n. n \<noteq> provider eng) (map fst (available_providers eng))
   \<and> (distinct (map fst (available_providers eng))
        \<longrightarrow> distinct (map fst (attempt_order eng)))
   \<and> (dropWhile (attempt_fails cfg now eng t c) (attempt_order eng) = []
        \<and> map_of (available_providers eng) ''local'' \<noteq> None
        \<longrightarrow> snd (snd (engine_analyze_transaction cfg now eng t c))
              = map fst (attempt_order eng) @ [''local'']
            \<and> ''local'' \<in> set (map fst (attempt_order eng)))"
proof -
  let ?F = "attempt_fails cfg now eng t c"
  have eq: "snd (snd (engine_analyze_transaction cfg now eng t c))
     = map fst (takeWhile ?F (attempt_order eng))
       @ (case dropWhile ?F (attempt_order eng) of
            [] \<Rightarrow> ultimate_call eng
          | a # rest \<Rightarrow> [fst a])"
    by (rule engine_calls_exact)
  have all_fail: "snd (snd (engine_analyze_transaction cfg now eng t c))
              = map fst (attempt_order eng) @ [''local'']
            \<and> ''local'' \<in> set (map fst (attempt_order eng))"
    if d: "dropWhile ?F (attempt_order eng) = []"
      and reg: "map_of (available_providers eng) ''local'' \<noteq> None"
  proof -
    from d have tw: "takeWhile ?F (attempt_order eng) = attempt_order eng"
      by (metis append_Nil2 takeWhile_dropWhile_id)
    have u: "ultimate_call eng = [''local'']"
      using reg by (auto simp: ultimate_call_def)
    have "snd (snd (engine_analyze_transaction cfg now eng t c))
        = map fst (takeWhile ?F (attempt_order eng)) @ ultimate_call eng"
      using eq by (simp only: d list.case)
    then have "snd (snd (engine_analyze_transaction cfg now eng t c))
        = map fst (attempt_order eng) @ [''local'']"
      by (simp only: tw u)
    then show ?thesis using attempt_order_local[OF reg] by blast
  qed
  show ?thesis
    using eq attempt_order_names[of eng] attempt_order_distinct[of eng] all_fail
    by blast
qed

theorem each_backend_once_then_local_again_witness:
  "distinct (map fst (available_providers
      ((new_engine ''openai'' None None)\<lparr>available_providers :=
         [(''openai'', failing_backend), (''local'', failing_backend),
          (''hybrid'', hybrid_analyze)]\<rparr>)))
   \<and> map fst (attempt_order
      ((new_engine ''openai'' None None)\<lparr>available_providers :=
         [(''openai'', failing_backend), (''local'', failing_backend),
          (''hybrid'', hybrid_analyze)]\<rparr>)) = [''openai'', ''local'', ''hybrid'']
   \<and> dropWhile (attempt_fails default_config 1
        ((new_engine ''openai'' None None)\<lparr>available_providers :=
           [(''openai'', failing_backend), (''local'', failing_backend),
            (''hybrid'', hybrid_analyze)]\<rparr>) demo_normal (Some CUST002))
      (attempt_order
        ((new_engine ''openai'' None None)\<lparr>available_providers :=
           [(''openai'', failing_backend), (''local'', failing_backend),
            (''hybrid'', hybrid_analyze)]\<rparr>)) = []
   \<and> map_of (available_providers
      ((new_engine ''openai'' None None)\<lparr>available_providers :=
         [(''openai'', failing_backend), (''local'', failing_backend),
          (''hybrid'', hybrid_analyze)]\<rparr>)) ''local'' \<noteq> None
   \<and> snd (snd (engine_analyze_transaction default_config 1
      ((new_engine ''openai'' None None)\<lparr>available_providers :=
         [(''openai'', failing_backend), (''local'', failing_backend),
          (''hybrid'', hybrid_analyze)]\<rparr>) demo_normal (Some CUST002)))
     = [''openai'', ''local'', ''hybrid'', ''local'']
   \<and> snd (snd (engine_analyze_transaction default_config 1
      (new_engine ''openai'' (Some ''sk-demo'') (Some failing_backend))
      demo_normal (Some CUST002))) = [''openai'', ''local'']"
  using each_backend_once_then_local_again [of default_config 1
      "(new_engine ''openai'' None None)\<lparr>available_providers :=
         [(''openai'', failing_backend), (''local'', failing_backend),
          (''hybrid'', hybrid_analyze)]\<rparr>" demo_normal "Some CUST002"]
    each_backend_once_then_local_again [of default_config 1
      "new_engine ''openai'' (Some ''sk-demo'') (Some failing_backend)"
      demo_normal "Some CUST002"]
  by (simp add: attempt_order_def attempt_fails_def ultimate_call_def
      try_provider_def store_analysis_result_def new_engine_def init_openai Let_def
      local_analyze_result failing_backend_def hybrid_analyze_def default_config_def)

text \<open>
  C2, as stated: when all backends fail, the call raises AllBackendsFailed. With every
  backend down the exception that leaves \<^verbatim>\<open>analyze_transaction\<close> is the one the local
  backend raised in the ultimate fallback call.
\<close>

theorem exhaustion_raises_backend_error:
  "fst (engine_analyze_transaction default_config 1
      ((new_engine ''openai'' None None)\<lparr>available_providers :=
         [(''openai'', failing_backend), (''local'', failing_backend), (''hybrid'', hybrid_analyze)]\<rparr>)
      demo_normal (Some CUST002)) = Inl (BackendError ''backend unavailable'')
   \<and> Inl (BackendError ''backend unavailable'') \<noteq> (Inl AllBackendsFailed :: error + analysis option)"
  by (simp add: engine_analyze_transaction_def after_primary_def ultimate_fallback_def
      try_provider_def store_analysis_result_def new_engine_def Let_def
      hybrid_analyze_def failing_backend_def default_config_def)

text \<open>
  C2, amended: with a positive learning-store capacity, when the primary backend does not
  return a result and some other registered backend does, the returned assessment has
  \<open>fallback_used\<close> true and names a backend other than the primary. When no registered
  backend returns a result, the call yields what one more call of the local backend
  yields: no assessment, and the error of that call (KeyError when no local backend is
  registered), never AllBackendsFailed; nothing is stored.
\<close>

theorem fallback_provenance_and_exhaustion:
  "(0 < pattern_memory_size cfg
      \<and> (\<forall>prov. map_of (available_providers eng) (provider eng) = Some prov
             \<longrightarrow> \<not> returns_result (prov t c))
      \<and> (\<exists>n p. (n, p) \<in> set (available_providers eng) \<and> n \<noteq> provider eng
             \<and> returns_result (p t c))
    \<longrightarrow> (\<exists>res n. fst (engine_analyze_transaction cfg now eng t c) = Inr (Some res)
            \<and> fallback_used res = Some True \<and> ai_provider res = Some n
            \<and> n \<noteq> provider eng))
   \<and> ((\<forall>n p. (n, p) \<in> set (available_providers eng) \<longrightarrow> \<not> returns_result (p t c))
    \<longrightarrow> fst (engine_analyze_transaction cfg now eng t c) = fst (ultimate_fallback eng t c)
        \<and> (\<forall>r. fst (engine_analyze_transaction cfg now eng t c) \<noteq> Inr (Some r))
        \<and> fst (engine_analyze_transaction cfg now eng t c) \<noteq> Inl AllBackendsFailed
        \<and> fst (snd (engine_analyze_transaction cfg now eng t c)) = eng)"
proof (intro conjI impI)
  let ?ps = "available_providers eng"
  let ?prim = "provider eng"
  let ?sw = "fallback_sweep cfg now eng ?prim t c ?ps"
  assume h: "0 < pattern_memory_size cfg
      \<and> (\<forall>prov. map_of ?ps ?prim = Some prov \<longrightarrow> \<not> returns_result (prov t c))
      \<and> (\<exists>n p. (n, p) \<in> set ?ps \<and> n \<noteq> ?prim \<and> returns_result (p t c))"
  then obtain n p where np: "(n, p) \<in> set ?ps" "n \<noteq> ?prim" "returns_result (p t c)" by blast
  have "fst ?sw \<noteq> None" using sweep_finds[of cfg n p ?ps ?prim t c now eng] h np by blast
  then obtain res eng' where sw: "fst ?sw = Some (res, eng')" by (cases "fst ?sw") auto
  have tags: "fallback_used res = Some True \<and> (\<exists>n. ai_provider res = Some n \<and> n \<noteq> ?prim)"
    using sweep_success_tags[OF sw] by blast
  have ap: "fst (after_primary cfg now eng t c calls0) = Inr (Some res)" for calls0
    using sw by (rule after_primary_found)
  have "fst (engine_analyze_transaction cfg now eng t c) = Inr (Some res)"
  proof (cases "map_of ?ps ?prim")
    case None
    then show ?thesis using ap by (simp add: engine_analyze_transaction_def)
  next
    case (Some prov)
    then have "\<not> returns_result (prov t c)" using h by blast
    then obtain e where "try_provider cfg now eng False ?prim prov t c = Inl e"
      using try_provider_fails by blast
    then show ?thesis using Some ap by (simp add: engine_analyze_transaction_def)
  qed
  then show "\<exists>res n. fst (engine_analyze_transaction cfg now eng t c) = Inr (Some res)
            \<and> fallback_used res = Some True \<and> ai_provider res = Some n \<and> n \<noteq> ?prim"
    using tags by blast
next
  let ?ps = "available_providers eng"
  let ?prim = "provider eng"
  let ?sw = "fallback_sweep cfg now eng ?prim t c ?ps"
  assume h: "\<forall>n p. (n, p) \<in> set ?ps \<longrightarrow> \<not> returns_result (p t c)"
  have sw: "fst ?sw = None" using h by (intro sweep_all_fail) blast
  have ap: "fst (after_primary cfg now eng t c calls0) = fst (ultimate_fallback eng t c)
       \<and> fst (snd (after_primary cfg now eng t c calls0)) = eng" for calls0
    using sw by (rule after_primary_exhausted)
  have eq: "fst (engine_analyze_transaction cfg now eng t c) = fst (ultimate_fallback eng t c)
       \<and> fst (snd (engine_analyze_transaction cfg now eng t c)) = eng"
  proof (cases "map_of ?ps ?prim")
    case None
    then show ?thesis using ap by (simp add: engine_analyze_transaction_def)
  next
    case (Some prov)
    then have "\<not> returns_result (prov t c)" using h by (auto dest: map_of_SomeD)
    then obtain e where "try_provider cfg now eng False ?prim prov t c = Inl e"
      using try_provider_fails by blast
    then show ?thesis using Some ap by (simp add: engine_analyze_transaction_def)
  qed
  have uf: "(\<forall>r. fst (ultimate_fallback eng t c) \<noteq> Inr (Some r))
       \<and> fst (ultimate_fallback eng t c) \<noteq> Inl AllBackendsFailed"
    using h by (intro ultimate_fallback_fails) blast
  show "fst (engine_analyze_transaction cfg now eng t c) = fst (ultimate_fallback eng t c)"
    using eq by simp
  show "\<forall>r. fst (engine_analyze_transaction cfg now eng t c) \<noteq> Inr (Some r)"
    using eq uf by simp
  show "fst (engine_analyze_transaction cfg now eng t c) \<noteq> Inl AllBackendsFailed"
    using eq uf by simp
  show "fst (snd (engine_analyze_transaction cfg now eng t c)) = eng"
    using eq by simp
qed

theorem fallback_provenance_and_exhaustion_witness:
  "0 < pattern_memory_size default_config
   \<and> returns_result (local_analyze demo_normal (Some CUST002))
   \<and> fst (engine_analyze_transaction default_config 1
        (new_engine ''openai'' (Some ''sk-demo'') (Some failing_backend))
        demo_normal (Some CUST002))
      = Inr (Some (local_result\<lparr>ai_provider := Some ''local'', confidence := Some 0.69,
                      fallback_used := Some True\<rparr>))
   \<and> fst (engine_analyze_transaction default_config 1
      ((new_engine ''openai'' None None)\<lparr>available_providers :=
         [(''openai'', failing_backend), (''local'', failing_backend), (''hybrid'', hybrid_analyze)]\<rparr>)
      demo_normal (Some CUST002)) = Inl (BackendError ''backend unavailable'')"
  using fallback_provenance_and_exhaustion [of default_config "new_engine ''openai'' (Some ''sk-demo'') (Some failing_backend)" demo_normal "Some CUST002" 1]
    fallback_provenance_and_exhaustion [of default_config "(new_engine ''openai'' None None)\<lparr>available_providers :=
         [(''openai'', failing_backend), (''local'', failing_backend), (''hybrid'', hybrid_analyze)]\<rparr>" demo_normal "Some CUST002" 1]
  by (simp add: engine_analyze_transaction_def after_primary_def ultimate_fallback_def
      try_provider_def store_analysis_result_def new_engine_def init_openai Let_def
      local_analyze_result failing_backend_def default_config_def returns_result_def
      hybrid_analyze_def calculate_confidence_def local_result_def get_list_def)

text \<open>
  C9: every assessment returned by \<open>engine_analyze_transaction\<close> names its backend. The
  primary path and the sweep set \<open>ai_provider\<close>; the ultimate fallback returns the local
  backend's dictionary as it is. With learning-store capacity 0 and the local backend as
  primary, the request ends in the ultimate fallback and the returned assessment has no
  \<open>ai_provider\<close>.
\<close>

theorem ultimate_fallback_result_lacks_provider:
  "engine_analyze_transaction (default_config\<lparr>pattern_memory_size := 0\<rparr>) 1
      (new_engine ''local'' None None) demo_normal (Some CUST002)
   = (Inr (Some local_result), new_engine ''local'' None None, [''local'', ''local''])
   \<and> ai_provider local_result = None"
  by (simp add: engine_analyze_transaction_def after_primary_def ultimate_fallback_def
      try_provider_def store_analysis_result_def new_engine_def init_local Let_def
      local_analyze_result default_config_def) (simp add: local_result_def)

section \<open>The assistant facade: lemmas\<close>

lemma digit_value_digit_char: "d < 10 \<Longrightarrow> digit_value (digit_char d) = d"
proof -
  assume "d < 10"
  then have "d = 0 \<or> d = 1 \<or> d = 2 \<or> d = 3 \<or> d = 4 \<or> d = 5 \<or> d = 6 \<or> d = 7 \<or> d = 8 \<or> d = 9"
    by arith
  then show ?thesis
    by (elim disjE) (simp_all add: digit_char_def digit_value_def)
qed

lemma decimal_value_snoc:
  "decimal_value (s @ [c]) = 10 * decimal_value s + digit_value c"
  by (simp add: decimal_value_def)

lemma decimal_value_decimal: "decimal_value (decimal n) = n"
proof (induction n rule: decimal.induct)
  case (1 n)
  show ?case
  proof (cases "n < 10")
    case True
    then show ?thesis
      by (subst decimal.simps) (simp add: decimal_value_def digit_value_digit_char)
  next
    case False
    then have "decimal_value (decimal (n div 10)) = n div 10" using 1 by simp
    then show ?thesis using False
      by (subst decimal.simps) (simp add: decimal_value_snoc digit_value_digit_char)
  qed
qed

lemma foldl_zeros:
  "foldl (\<lambda>acc c. 10 * acc + digit_value c) 0 (replicate k (CHR ''0'')) = 0"
  by (induction k) (simp_all add: digit_value_def)

lemma decimal_value_format_06d: "decimal_value (format_06d n) = n"
proof -
  have "decimal_value (format_06d n)
      = foldl (\<lambda>acc c. 10 * acc + digit_value c) 0 (decimal n)"
    by (simp add: decimal_value_def format_06d_def foldl_zeros)
  then show ?thesis using decimal_value_decimal[of n] by (simp add: decimal_value_def)
qed

lemma alert_number_format: "alert_number (format_alert_id n) = n"
  by (simp add: alert_number_def format_alert_id_def decimal_value_format_06d)

lemma submit_alert_simulation:
  "submit_alert SimulationSystem now st res =
     st\<lparr>alert_counter := alert_counter st + 1,
        bank_state := bank_state st @ [make_alert (alert_counter st + 1) now res]\<rparr>"
  by (simp add: submit_alert_def SimulationSystem_def simulation_submit_alert_def Let_def)

lemma submit_alert_counter:
  "alert_counter (submit_alert sys now st res) = alert_counter st + 1"
  by (simp add: submit_alert_def Let_def case_prod_beta)

lemma analyze_state_cases:
  "\<exists>eng. snd (assistant_analyze_transaction cfg sys now st txn) = st\<lparr>ai_engine := eng\<rparr>
       \<or> (\<exists>res. snd (assistant_analyze_transaction cfg sys now st txn)
               = submit_alert sys now (st\<lparr>ai_engine := eng\<rparr>) res)"
proof (cases "process_transaction sys (bank_state st) txn")
  case (Inl e)
  then have "snd (assistant_analyze_transaction cfg sys now st txn) = st\<lparr>ai_engine := ai_engine st\<rparr>"
    by (simp add: assistant_analyze_transaction_def)
  then show ?thesis by blast
next
  case (Inr ctx)
  obtain out eng calls where e: "engine_analyze_transaction cfg now (ai_engine st) txn
      (bc_customer_profile ctx) = (out, eng, calls)" by (cases "engine_analyze_transaction cfg now (ai_engine st) txn
      (bc_customer_profile ctx)") auto
  show ?thesis
  proof (cases out)
    case (Inl e')
    then have "snd (assistant_analyze_transaction cfg sys now st txn) = st\<lparr>ai_engine := eng\<rparr>"
      using Inr e by (simp add: assistant_analyze_transaction_def)
    then show ?thesis by blast
  next
    case out: (Inr ai)
    show ?thesis
    proof (cases "generate_comprehensive_result now txn ctx ai")
      case (Inl e')
      then have "snd (assistant_analyze_transaction cfg sys now st txn) = st\<lparr>ai_engine := eng\<rparr>"
        using Inr e out by (simp add: assistant_analyze_transaction_def)
      then show ?thesis by blast
    next
      case res: (Inr res)
      then have "snd (assistant_analyze_transaction cfg sys now st txn) = st\<lparr>ai_engine := eng\<rparr>
        \<or> snd (assistant_analyze_transaction cfg sys now st txn)
               = submit_alert sys now (st\<lparr>ai_engine := eng\<rparr>) res"
        using Inr e out by (simp add: assistant_analyze_transaction_def)
      then show ?thesis by blast
    qed
  qed
qed

lemma alerts_ok_step:
  assumes "alerts_ok st"
  shows "alerts_ok (snd (assistant_analyze_transaction cfg SimulationSystem now st txn))"
proof -
  obtain eng where c: "snd (assistant_analyze_transaction cfg SimulationSystem now st txn) = st\<lparr>ai_engine := eng\<rparr>
       \<or> (\<exists>res. snd (assistant_analyze_transaction cfg SimulationSystem now st txn)
               = submit_alert SimulationSystem now (st\<lparr>ai_engine := eng\<rparr>) res)"
    using analyze_state_cases by blast
  then show ?thesis
  proof
    assume "snd (assistant_analyze_transaction cfg SimulationSystem now st txn) = st\<lparr>ai_engine := eng\<rparr>"
    then show ?thesis using assms by (simp add: alerts_ok_def)
  next
    assume "\<exists>res. snd (assistant_analyze_transaction cfg SimulationSystem now st txn)
               = submit_alert SimulationSystem now (st\<lparr>ai_engine := eng\<rparr>) res"
    then obtain res where "snd (assistant_analyze_transaction cfg SimulationSystem now st txn)
               = submit_alert SimulationSystem now (st\<lparr>ai_engine := eng\<rparr>) res" by blast
    then show ?thesis using assms
      by (auto simp: alerts_ok_def submit_alert_simulation sorted_wrt_append make_alert_def
          alert_number_format)
  qed
qed

lemma alerts_ok_serve:
  "alerts_ok st \<Longrightarrow> alerts_ok (serve cfg SimulationSystem st reqs)"
proof (induction reqs arbitrary: st)
  case Nil
  then show ?case by simp
next
  case (Cons q reqs)
  obtain now txn where q: "q = (now, txn)" by (cases q) auto
  show ?case using Cons alerts_ok_step[of st cfg now txn] unfolding q by simp
qed

lemma process_transaction_submit_irrelevant:
  "process_transaction (sys\<lparr>bs_submit_alert := submit\<rparr>) bst txn
     = process_transaction sys bst txn"
  by (simp add: process_transaction_def split: option.splits sum.splits)

lemma demo_high_risk_analysis:
  "fst (assistant_analyze_transaction default_config unreachable_bank 1
      (new_assistant (new_engine ''openai'' (Some ''sk-demo'') (Some high_risk_backend)))
      demo_high_risk) = Inr demo_high_risk_result"
  by (simp add: assistant_analyze_transaction_def process_transaction_def unreachable_bank_def
       SimulationSystem_def new_assistant_def demo_high_risk_def get_customer_profile_def
       sample_customers_def get_transaction_history_def sample_transactions_def
       engine_analyze_transaction_def new_engine_def init_openai try_provider_def
       high_risk_backend_def Let_def store_analysis_result_def default_config_def
       calculate_confidence_def local_result_def get_list_def
       generate_comprehensive_result_def CUST003_def RiskLevel_HIGH_def RiskLevel_SEVERE_def
       demo_high_risk_result_def)

lemma ultimate_fallback_local:
  "map_of (available_providers eng) ''local'' = Some local_analyze
   \<Longrightarrow> fst (ultimate_fallback eng t c) = Inr (Some local_result)"
  by (simp add: ultimate_fallback_def local_analyze_result)

lemma after_primary_returns:
  assumes "map_of (available_providers eng) ''local'' = Some local_analyze"
  shows "\<exists>r. fst (after_primary cfg now eng t c calls0) = Inr (Some r)"
proof (cases "fst (fallback_sweep cfg now eng (provider eng) t c (available_providers eng))")
  case None
  then show ?thesis using ultimate_fallback_local[OF assms, of t c]
    by (auto simp: after_primary_def split: prod.splits option.splits)
next
  case (Some found)
  then show ?thesis
    by (auto simp: after_primary_def split: prod.splits option.splits)
qed

lemma engine_returns_with_local:
  assumes "map_of (available_providers eng) ''local'' = Some local_analyze"
  shows "\<exists>r. fst (engine_analyze_transaction cfg now eng t c) = Inr (Some r)"
proof (cases "map_of (available_providers eng) (provider eng)")
  case None
  then show ?thesis using after_primary_returns[OF assms]
    by (simp add: engine_analyze_transaction_def)
next
  case (Some prov)
  show ?thesis
  proof (cases "try_provider cfg now eng False (provider eng) prov t c")
    case (Inl e)
    then show ?thesis using Some after_primary_returns[OF assms]
      by (simp add: engine_analyze_transaction_def)
  next
    case (Inr found)
    then show ?thesis using Some
      by (cases found) (simp add: engine_analyze_transaction_def)
  qed
qed

lemma unknown_profile:
  "map_of sample_customers cid = None
   \<Longrightarrow> bs_get_customer_profile SimulationSystem bst cid = Inr (Some empty_profile)"
  by (simp add: SimulationSystem_def get_customer_profile_def)

lemma decimal_small: "n < 10 \<Longrightarrow> decimal n = [digit_char n]"
  by (subst decimal.simps) simp

lemma replicate_five: "replicate 5 x = [x, x, x, x, x]"
  by (simp add: numeral_eq_Suc)

section \<open>Alerts\<close>

text \<open>
  C7: alert identifiers are strictly increasing and never reused. The identifier of an
  alert is \<^verbatim>\<open>ALERT_\<close> followed by the counter, which \<open>submit_alert\<close> increments by one
  before every alert, on any bank system; the number read back from the identifier is
  that counter. On the simulation, which keeps every alert it receives in order, the
  alerts of a process lifetime (any sequence of requests served from a state with no
  alerts) carry strictly increasing numbers, and no identifier occurs twice.
\<close>

theorem alert_ids_strictly_increasing:
  "sorted_wrt (<) (map (\<lambda>a. alert_number (alert_id a))
      (bank_state (serve cfg SimulationSystem (st\<lparr>bank_state := []\<rparr>) reqs)))
   \<and> distinct (map alert_id
      (bank_state (serve cfg SimulationSystem (st\<lparr>bank_state := []\<rparr>) reqs)))
   \<and> alert_counter (submit_alert sys now st' res) = alert_counter st' + 1
   \<and> alert_number (alert_id (make_alert n now res)) = n"
proof -
  let ?alerts = "bank_state (serve cfg SimulationSystem (st\<lparr>bank_state := []\<rparr>) reqs)"
  have "alerts_ok (st\<lparr>bank_state := []\<rparr>)" by (simp add: alerts_ok_def)
  then have "alerts_ok (serve cfg SimulationSystem (st\<lparr>bank_state := []\<rparr>) reqs)"
    by (rule alerts_ok_serve)
  then have s: "sorted_wrt (<) (map (\<lambda>a. alert_number (alert_id a)) ?alerts)"
    by (simp add: alerts_ok_def)
  then have "distinct (map alert_number (map alert_id ?alerts))"
    by (simp add: strict_sorted_iff comp_def)
  then have "distinct (map alert_id ?alerts)"
    using distinct_map[of alert_number "map alert_id ?alerts"] by blast
  moreover have "alert_counter (submit_alert sys now st' res) = alert_counter st' + 1"
    by (rule submit_alert_counter)
  moreover have "alert_number (alert_id (make_alert n now res)) = n"
    by (simp add: make_alert_def alert_number_format)
  ultimately show ?thesis using s by simp
qed

theorem alert_ids_strictly_increasing_witness:
  "map alert_id (bank_state (serve default_config SimulationSystem
       ((new_assistant (new_engine ''openai'' (Some ''sk-demo'') (Some high_risk_backend)))
          \<lparr>bank_state := []\<rparr>)
       [(1, demo_high_risk), (2, demo_normal), (3, demo_high_risk)]))
     = [''ALERT_000001'', ''ALERT_000002'', ''ALERT_000003'']
   \<and> map (\<lambda>a. alert_number (alert_id a)) (bank_state (serve default_config SimulationSystem
       ((new_assistant (new_engine ''openai'' (Some ''sk-demo'') (Some high_risk_backend)))
          \<lparr>bank_state := []\<rparr>)
       [(1, demo_high_risk), (2, demo_normal), (3, demo_high_risk)])) = [1, 2, 3]"
  using alert_ids_strictly_increasing [of default_config
      "new_assistant (new_engine ''openai'' (Some ''sk-demo'') (Some high_risk_backend))"
      "[(1, demo_high_risk), (2, demo_normal), (3, demo_high_risk)]"
      SimulationSystem 1 "new_assistant (new_engine ''local'' None None)"
      demo_high_risk_result 1]
  by (simp add: assistant_analyze_transaction_def process_transaction_def
       SimulationSystem_def new_assistant_def demo_high_risk_def demo_normal_def get_customer_profile_def
       sample_customers_def get_transaction_history_def sample_transactions_def
       engine_analyze_transaction_def new_engine_def init_openai try_provider_def
       high_risk_backend_def Let_def store_analysis_result_def default_config_def
       calculate_confidence_def local_result_def get_list_def
       generate_comprehensive_result_def CUST003_def CUST002_def RiskLevel_HIGH_def RiskLevel_SEVERE_def
       submit_alert_def make_alert_def simulation_submit_alert_def
       format_alert_id_def format_06d_def decimal_small digit_char_def alert_number_def
       decimal_value_def digit_value_def replicate_five)

text \<open>
  C8: when the facade's analysis returns a result, an alert was synthesized and handed
  to the bank system exactly when the level of that result is high or severe (the
  counter went up by one and the bank system's \<open>submit_alert\<close> ran once on that alert;
  otherwise both are untouched), and the returned result does not depend on what
  submission does: with any other submission behaviour, one that raises or returns false
  included, the same result is returned.
\<close>

theorem alert_iff_high_risk_and_submission_nonfatal:
  assumes "fst (assistant_analyze_transaction cfg sys now st txn) = Inr res"
  shows "alert_counter (snd (assistant_analyze_transaction cfg sys now st txn))
           = alert_counter st
             + (if ra_risk_level (ar_risk_assessment res) \<in> {RiskLevel_HIGH, RiskLevel_SEVERE}
                then 1 else 0)
       \<and> bank_state (snd (assistant_analyze_transaction cfg sys now st txn))
           = (if ra_risk_level (ar_risk_assessment res) \<in> {RiskLevel_HIGH, RiskLevel_SEVERE}
              then snd (bs_submit_alert sys (bank_state st)
                          (make_alert (alert_counter st + 1) now res))
              else bank_state st)
       \<and> (\<forall>submit. fst (assistant_analyze_transaction cfg
                           (sys\<lparr>bs_submit_alert := submit\<rparr>) now st txn) = Inr res)"
proof (cases "process_transaction sys (bank_state st) txn")
  case (Inl e)
  then show ?thesis using assms by (simp add: assistant_analyze_transaction_def)
next
  case (Inr ctx)
  obtain out eng calls where e: "engine_analyze_transaction cfg now (ai_engine st) txn
      (bc_customer_profile ctx) = (out, eng, calls)"
    by (cases "engine_analyze_transaction cfg now (ai_engine st) txn
      (bc_customer_profile ctx)") auto
  show ?thesis
  proof (cases out)
    case (Inl e')
    then show ?thesis using assms Inr e by (simp add: assistant_analyze_transaction_def)
  next
    case out: (Inr ai)
    show ?thesis
    proof (cases "generate_comprehensive_result now txn ctx ai")
      case (Inl e')
      then show ?thesis using assms Inr e out by (simp add: assistant_analyze_transaction_def)
    next
      case g: (Inr r)
      have r: "r = res" using assms Inr e out g
        by (simp add: assistant_analyze_transaction_def split: if_splits)
      show ?thesis using Inr e out g unfolding r
        by (simp add: assistant_analyze_transaction_def process_transaction_submit_irrelevant
            submit_alert_def Let_def case_prod_beta)
    qed
  qed
qed

theorem alert_iff_high_risk_and_submission_nonfatal_witness:
  "fst (assistant_analyze_transaction default_config unreachable_bank 1
      (new_assistant (new_engine ''openai'' (Some ''sk-demo'') (Some high_risk_backend)))
      demo_high_risk) = Inr demo_high_risk_result
   \<and> ra_risk_level (ar_risk_assessment demo_high_risk_result) = RiskLevel_HIGH
   \<and> fst (bs_submit_alert unreachable_bank [] (make_alert 1 1 demo_high_risk_result))
       = Inl (BackendError ''bank system unreachable'')
   \<and> alert_counter (snd (assistant_analyze_transaction default_config unreachable_bank 1
      (new_assistant (new_engine ''openai'' (Some ''sk-demo'') (Some high_risk_backend)))
      demo_high_risk)) = 1"
  using alert_iff_high_risk_and_submission_nonfatal [of default_config unreachable_bank 1
      "new_assistant (new_engine ''openai'' (Some ''sk-demo'') (Some high_risk_backend))"
      demo_high_risk demo_high_risk_result] demo_high_risk_analysis
  by (simp add: new_assistant_def demo_high_risk_result_def RiskLevel_HIGH_def
      unreachable_bank_def)

section \<open>Unknown customers\<close>

text \<open>
  C10: for a customer identifier with no profile in the simulation,
  \<open>get_customer_profile\<close> returns the empty profile rather than raising, and the facade's
  analysis of a transaction of that customer (with the repository's local backend
  registered, as \<^verbatim>\<open>_initialize_providers\<close> always does) returns a result whose customer
  risk tier is the default \<^verbatim>\<open>unknown\<close>.
\<close>

theorem unknown_customer_gets_empty_profile:
  assumes "map_of sample_customers cid = None"
    and "customer_id txn = Some cid"
    and "map_of (available_providers (ai_engine st)) ''local'' = Some local_analyze"
  shows "bs_get_customer_profile SimulationSystem (bank_state st) cid
           = Inr (Some empty_profile)
       \<and> (\<exists>res. fst (assistant_analyze_transaction cfg SimulationSystem now st txn) = Inr res
              \<and> customer_risk_tier (ar_context res) = ''unknown'')"
proof -
  have prof: "bs_get_customer_profile SimulationSystem (bank_state st) cid
           = Inr (Some empty_profile)"
    using assms(1) by (rule unknown_profile)
  let ?ctx = "\<lparr>bc_customer_profile = Some empty_profile,
                bc_recent_transactions = Some (get_transaction_history cid 30),
                bc_system_type = ''SimulationSystem'', bc_simulation_mode = True\<rparr>"
  have pt: "process_transaction SimulationSystem (bank_state st) txn = Inr ?ctx"
    using assms(1,2)
    by (simp add: process_transaction_def SimulationSystem_def get_customer_profile_def)
  obtain out eng calls where e: "engine_analyze_transaction cfg now (ai_engine st) txn
      (Some empty_profile) = (out, eng, calls)"
    by (cases "engine_analyze_transaction cfg now (ai_engine st) txn (Some empty_profile)") auto
  obtain ai where ai: "out = Inr (Some ai)"
    using engine_returns_with_local[OF assms(3), of cfg now txn "Some empty_profile"] e by auto
  obtain res where g: "generate_comprehensive_result now txn ?ctx (Some ai) = Inr res"
    and tier: "customer_risk_tier (ar_context res) = ''unknown''"
    by (simp add: generate_comprehensive_result_def empty_profile_def)
  have "fst (assistant_analyze_transaction cfg SimulationSystem now st txn) = Inr res"
    using pt e ai g by (simp add: assistant_analyze_transaction_def)
  then show ?thesis using prof tier by blast
qed

theorem unknown_customer_gets_empty_profile_witness:
  "map_of sample_customers ''CUST999'' = None
   \<and> customer_id (demo_normal\<lparr>customer_id := Some ''CUST999''\<rparr>) = Some ''CUST999''
   \<and> map_of (available_providers (ai_engine (new_assistant (new_engine ''local'' None None))))
        ''local'' = Some local_analyze
   \<and> bs_get_customer_profile SimulationSystem [] ''CUST999'' = Inr (Some empty_profile)
   \<and> (\<exists>res. fst (assistant_analyze_transaction default_config SimulationSystem 1
                   (new_assistant (new_engine ''local'' None None))
                   (demo_normal\<lparr>customer_id := Some ''CUST999''\<rparr>)) = Inr res
          \<and> customer_risk_tier (ar_context res) = ''unknown'')"
  using unknown_customer_gets_empty_profile [of "''CUST999''" "demo_normal\<lparr>customer_id := Some ''CUST999''\<rparr>"
      "new_assistant (new_engine ''local'' None None)" default_config 1]
  by (simp add: sample_customers_def new_assistant_def new_engine_def
      initialize_providers_def check_openai_availability_def)

end
